theory Spec2Isabelle
  imports Complex_Main "HOL-Library.AList" "HOL-Library.Log_Nat"
begin

section \<open>The presentation server of \<^verbatim>\<open>src/server.js\<close>\<close>

text \<open>
  The server keeps three module-level variables, \<^verbatim>\<open>currentSlide\<close>,
  \<^verbatim>\<open>presentationElements\<close> and \<^verbatim>\<open>responses\<close>, and one Express route handler per
  operation. Every handler runs to completion without awaiting anything, so a handler is a
  function from the state (and the request's fields) to a reply and a new state.

  Request fields are taken at the types the data model gives them: identifiers, names and
  texts are strings, \<^verbatim>\<open>options\<close> is an array of strings, \<^verbatim>\<open>option\<close> is an integer. A field
  that the request does not carry is \<open>None\<close> (JavaScript's \<^verbatim>\<open>undefined\<close>). Each
  \<^verbatim>\<open>new Date().toISOString()\<close> is a reading of the clock, passed to the handler as \<open>now\<close>;
  \<^verbatim>\<open>console.log\<close> and the two empty broadcast functions have no effect on the state.
  A reply keeps the fields that vary; \<^verbatim>\<open>success: true\<close> and the constant messages are
  left out. A handler that throws is answered by the error-handling middleware with
  status 500, and the assignments it made before throwing stay.
\<close>

subsection \<open>Data\<close>

type_synonym timestamp = nat

text \<open>The object literal stored at lines 87-93.\<close>

record element =
  id_e :: string
  type_e :: string
  title :: string
  options :: "string list"
  createdAt :: timestamp

text \<open>The object literal \<^verbatim>\<open>responseData\<close> of lines 161-167.\<close>

record responseData =
  user :: string
  timestamp :: timestamp
  response :: "string option"
  option :: "int option"
  optionText :: "string option"

text \<open>
  \<^verbatim>\<open>presentationElements\<close> and \<^verbatim>\<open>responses\<close> are plain objects created by \<^verbatim>\<open>{}\<close>. Their own
  properties are kept as association lists (\<open>AList.update\<close> overwrites a key in place or
  appends a new one, \<open>AList.delete\<close> removes it, as assignment and \<^verbatim>\<open>delete\<close> do). The
  lists are read only through lookups, through the number of keys and through the sum over
  the values, none of which depends on the order of the keys.

  A plain object also has a prototype. A property read \<^verbatim>\<open>obj[k]\<close> that finds no own property
  \<open>k\<close> continues in the prototype, which for \<^verbatim>\<open>{}\<close> is \<^verbatim>\<open>Object.prototype\<close>; and the
  assignment \<^verbatim>\<open>obj['__proto__'] = v\<close> with an object \<open>v\<close> does not create a property: it runs
  the setter inherited from \<^verbatim>\<open>Object.prototype\<close>, which replaces the prototype of \<open>obj\<close>
  by \<open>v\<close>. \<open>presentationElements_proto\<close> is that prototype: \<open>None\<close> for
  \<^verbatim>\<open>Object.prototype\<close>, \<open>Some e\<close> once an element has been saved under the id
  \<^verbatim>\<open>__proto__\<close>. The prototype of \<^verbatim>\<open>responses\<close> is never replaced (line 158 is the only
  assignment, and it is not reached for a key whose lookup is truthy).
\<close>

record state =
  currentSlide :: string
  presentationElements :: "(string \<times> element) list"
  presentationElements_proto :: "element option"
  responses :: "(string \<times> responseData list) list"

text \<open>Lines 20-22: the state when the process starts.\<close>

definition init :: state where
  "init = \<lparr>currentSlide = '''', presentationElements = [], presentationElements_proto = None,
           responses = []\<rparr>"

text \<open>
  The replies with status 400, 404 and 401, and status 500, which the error-handling
  middleware of lines 299-305 sends when a handler throws.
\<close>

datatype error = ValidationError | NotFoundError | UnauthorizedError | InternalServerError

subsection \<open>Property lookup\<close>

text \<open>
  The property names of \<^verbatim>\<open>Object.prototype\<close>. All are functions, except \<^verbatim>\<open>__proto__\<close>, an
  accessor whose getter returns the prototype of the object it is read from.
\<close>

definition Object_prototype_keys :: "string list" where
  "Object_prototype_keys =
    [''constructor'', ''__defineGetter__'', ''__defineSetter__'', ''hasOwnProperty'',
     ''__lookupGetter__'', ''__lookupSetter__'', ''isPrototypeOf'', ''propertyIsEnumerable'',
     ''toString'', ''valueOf'', ''__proto__'', ''toLocaleString'']"

text \<open>
  The \<^verbatim>\<open>length\<close> property of the value of \<^verbatim>\<open>Object.prototype[k]\<close>: the number of declared
  parameters of the function (\<^verbatim>\<open>constructor\<close> is \<^verbatim>\<open>Object\<close>, of length 1), and
  \<^verbatim>\<open>undefined\<close> for the object \<^verbatim>\<open>Object.prototype\<close> itself.
\<close>

definition Object_prototype_length :: "string \<Rightarrow> nat option" where
  "Object_prototype_length k =
    (if k = ''__proto__'' then None
     else if k \<in> {''__defineGetter__'', ''__defineSetter__''} then Some 2
     else if k \<in> {''constructor'', ''hasOwnProperty'', ''__lookupGetter__'',
                   ''__lookupSetter__'', ''isPrototypeOf'', ''propertyIsEnumerable''} then Some 1
     else Some 0)"

text \<open>What \<^verbatim>\<open>responses[k]\<close> evaluates to.\<close>

datatype responses_value =
    RUndefined
  | RArray "responseData list"
  | RInherited string  \<comment> \<open>the value of \<^verbatim>\<open>Object.prototype[k]\<close>\<close>

definition responses_lookup :: "state \<Rightarrow> string \<Rightarrow> responses_value" where
  "responses_lookup s k =
    (case map_of (responses s) k of
       Some rs \<Rightarrow> RArray rs
     | None \<Rightarrow> if k \<in> set Object_prototype_keys then RInherited k else RUndefined)"

text \<open>Arrays, functions and objects are truthy, also the empty array.\<close>

fun r_truthy :: "responses_value \<Rightarrow> bool" where
  "r_truthy RUndefined = False"
| "r_truthy (RArray rs) = True"
| "r_truthy (RInherited k) = True"

fun r_length :: "responses_value \<Rightarrow> nat option" where
  "r_length RUndefined = None"
| "r_length (RArray rs) = Some (length rs)"
| "r_length (RInherited k) = Object_prototype_length k"

text \<open>\<^verbatim>\<open>responses[elementId] || []\<close> of lines 188 and 203.\<close>

definition responses_or_empty :: "state \<Rightarrow> string \<Rightarrow> responses_value" where
  "responses_or_empty s elementId =
    (let r = responses_lookup s elementId in if r_truthy r then r else RArray [])"

text \<open>
  What \<^verbatim>\<open>presentationElements[k]\<close> evaluates to: an element, a field of the element that
  has become the prototype, or a member of \<^verbatim>\<open>Object.prototype\<close>.
\<close>

datatype elements_value =
    EUndefined
  | EElement element
  | EString string
  | EOptions "string list"
  | ETime timestamp  \<comment> \<open>an ISO date string, never empty\<close>
  | EInherited string  \<comment> \<open>the value of \<^verbatim>\<open>Object.prototype[k]\<close>\<close>

definition elements_lookup :: "state \<Rightarrow> string \<Rightarrow> elements_value" where
  "elements_lookup s k =
    (case map_of (presentationElements s) k of
       Some e \<Rightarrow> EElement e
     | None \<Rightarrow>
        (case presentationElements_proto s of
           None \<Rightarrow> if k \<in> set Object_prototype_keys then EInherited k else EUndefined
         | Some p \<Rightarrow>
             if k = ''__proto__'' then EElement p
             else if k = ''id'' then EString (id_e p)
             else if k = ''type'' then EString (type_e p)
             else if k = ''title'' then EString (title p)
             else if k = ''options'' then EOptions (options p)
             else if k = ''createdAt'' then ETime (createdAt p)
             else if k \<in> set Object_prototype_keys then EInherited k
             else EUndefined))"

fun e_truthy :: "elements_value \<Rightarrow> bool" where
  "e_truthy EUndefined = False"
| "e_truthy (EElement e) = True"
| "e_truthy (EString x) = (x \<noteq> [])"
| "e_truthy (EOptions os) = True"
| "e_truthy (ETime t) = True"
| "e_truthy (EInherited k) = True"

text \<open>
  The assignment \<^verbatim>\<open>presentationElements[id] = e\<close> of line 87: an own property is
  overwritten; otherwise the key \<^verbatim>\<open>__proto__\<close> reaches the inherited setter, and every other
  key becomes a new own property.
\<close>

definition elements_assign :: "state \<Rightarrow> string \<Rightarrow> element \<Rightarrow> state" where
  "elements_assign s k e =
    (if map_of (presentationElements s) k = None \<and> k = ''__proto__''
     then s\<lparr>presentationElements_proto := Some e\<rparr>
     else s\<lparr>presentationElements := AList.update k e (presentationElements s)\<rparr>)"

text \<open>\<^verbatim>\<open>!x\<close> for a request field that is a string or missing.\<close>

fun falsy :: "string option \<Rightarrow> bool" where
  "falsy None = True"
| "falsy (Some x) = (x = [])"

subsection \<open>Numbers\<close>

text \<open>
  JavaScript numbers are IEEE 754 binary64 values, and each arithmetic operator returns
  the binary64 value nearest to the exact result, a tie going to the even significand. A
  finite binary64 value is a rational number, so the operators are modelled on \<open>rat\<close>:
  \<open>binade x\<close> is the exponent \<open>e\<close> with \<open>2^e \<le> x < 2^(e+1)\<close>, and \<open>fl x\<close> rounds \<open>x\<close> to
  53 significant bits. The exponent range of binary64 is left out: the numbers that
  the server computes with are array lengths (below \<open>2^32\<close>), their quotients and products
  with 100 and 10, all far from overflow and underflow.
\<close>

definition binade :: "rat \<Rightarrow> int" where
  "binade x =
    (let (a, b) = quotient_of x;
         e0 = int (floorlog 2 (nat a)) - int (floorlog 2 (nat b))
     in if power_int 2 e0 \<le> x then e0 else e0 - 1)"

definition round_ties_even :: "rat \<Rightarrow> int" where
  "round_ties_even q =
    (let n = \<lfloor>q\<rfloor>; r = q - of_int n
     in if r < 1 / 2 then n else if 1 / 2 < r then n + 1 else if even n then n else n + 1)"

definition fl :: "rat \<Rightarrow> rat" where
  "fl x =
    (if x = 0 then 0
     else let u = power_int 2 (binade \<bar>x\<bar> - 52)
          in sgn x * of_int (round_ties_even (\<bar>x\<bar> / u)) * u)"

text \<open>The operators \<^verbatim>\<open>/\<close> and \<^verbatim>\<open>*\<close> on numbers.\<close>

definition js_div :: "rat \<Rightarrow> rat \<Rightarrow> rat" where
  "js_div x y = fl (x / y)"

definition js_mul :: "rat \<Rightarrow> rat \<Rightarrow> rat" where
  "js_mul x y = fl (x * y)"

text \<open>\<^verbatim>\<open>Math.round\<close>: the nearest integer, a tie going up.\<close>

definition Math_round :: "rat \<Rightarrow> int" where
  "Math_round x = \<lfloor>x + 1 / 2\<rfloor>"

subsection \<open>Slide state: \<^verbatim>\<open>GET /api/sync\<close> and \<^verbatim>\<open>GET /api/current-slide\<close>\<close>

record sync_reply =
  sync_message :: string
  sync_timestamp :: timestamp

text \<open>Lines 45-65.\<close>

definition get_api_sync :: "state \<Rightarrow> string option \<Rightarrow> timestamp \<Rightarrow> (error + sync_reply) \<times> state" where
  "get_api_sync s slideName now =
    (case slideName of
       None \<Rightarrow> (Inl ValidationError, s)
     | Some name \<Rightarrow>
         if name = [] then (Inl ValidationError, s)
         else (Inr \<lparr>sync_message = ''Slide updated to: '' @ name, sync_timestamp = now\<rparr>,
               s\<lparr>currentSlide := name\<rparr>))"

record slide_reply =
  slide_currentSlide :: string
  slide_timestamp :: timestamp

text \<open>Lines 70-75.\<close>

definition get_api_current_slide :: "state \<Rightarrow> timestamp \<Rightarrow> slide_reply" where
  "get_api_current_slide s now = \<lparr>slide_currentSlide = currentSlide s, slide_timestamp = now\<rparr>"

subsection \<open>Elements: \<^verbatim>\<open>/api/elements\<close>\<close>

text \<open>
  Lines 80-102, \<^verbatim>\<open>POST /api/elements\<close>. The reply carries \<^verbatim>\<open>presentationElements[id]\<close>, read
  back after the assignment.
\<close>

definition post_api_elements ::
  "state \<Rightarrow> string option \<Rightarrow> string option \<Rightarrow> string option \<Rightarrow> string list option \<Rightarrow> timestamp
    \<Rightarrow> (error + elements_value) \<times> state" where
  "post_api_elements s id' type' title' options' now =
    (if falsy id' \<or> falsy type' \<or> falsy title' then (Inl ValidationError, s)
     else
       (case (id', type', title') of
          (Some i, Some ty, Some ti) \<Rightarrow>
            let s' = elements_assign s i
                  \<lparr>id_e = i, type_e = ty, title = ti,
                   options = (case options' of None \<Rightarrow> [] | Some os \<Rightarrow> os),
                   createdAt = now\<rparr>
            in (Inr (elements_lookup s' i), s')
        | _ \<Rightarrow> (Inl ValidationError, s)))"

text \<open>Lines 107-109, \<^verbatim>\<open>GET /api/elements\<close>: the own properties of the object.\<close>

definition get_api_elements :: "state \<Rightarrow> (string \<times> element) list" where
  "get_api_elements s = presentationElements s"

text \<open>Lines 114-123, \<^verbatim>\<open>GET /api/elements/:id\<close>.\<close>

definition get_api_elements_id :: "state \<Rightarrow> string \<Rightarrow> error + elements_value" where
  "get_api_elements_id s id' =
    (let element = elements_lookup s id'
     in if \<not> e_truthy element then Inl NotFoundError else Inr element)"

text \<open>
  Lines 128-144, \<^verbatim>\<open>DELETE /api/elements/:id\<close>. \<^verbatim>\<open>delete\<close> removes an own property and
  does nothing when there is none.
\<close>

definition delete_api_elements_id :: "state \<Rightarrow> string \<Rightarrow> (error + unit) \<times> state" where
  "delete_api_elements_id s id' =
    (if \<not> e_truthy (elements_lookup s id') then (Inl NotFoundError, s)
     else (Inr (),
           s\<lparr>presentationElements := AList.delete id' (presentationElements s),
             responses := AList.delete id' (responses s)\<rparr>))"

subsection \<open>Responses: \<^verbatim>\<open>/api/responses\<close>\<close>

text \<open>
  Lines 149-181, \<^verbatim>\<open>POST /api/responses\<close>. Line 158 runs only when the lookup is falsy.
  Line 169 calls \<^verbatim>\<open>push\<close> on the value of the lookup: an array has it, a member of
  \<^verbatim>\<open>Object.prototype\<close> does not, and calling \<^verbatim>\<open>undefined\<close> throws a TypeError. The reply
  carries the new length of the array.
\<close>

definition post_api_responses ::
  "state \<Rightarrow> string option \<Rightarrow> string option \<Rightarrow> string option \<Rightarrow> int option \<Rightarrow> string option
    \<Rightarrow> timestamp \<Rightarrow> (error + nat) \<times> state" where
  "post_api_responses s elementId user' response' option' optionText' now =
    (if falsy elementId \<or> falsy user' then (Inl ValidationError, s)
     else
       (case (elementId, user') of
          (Some eid, Some u) \<Rightarrow>
            let s1 = (if \<not> r_truthy (responses_lookup s eid)
                      then s\<lparr>responses := AList.update eid [] (responses s)\<rparr> else s);
                responseData = \<lparr>user = u, timestamp = now, response = response',
                                option = option', optionText = optionText'\<rparr>
            in (case responses_lookup s1 eid of
                  RArray rs \<Rightarrow>
                    (Inr (length (rs @ [responseData])),
                     s1\<lparr>responses := AList.update eid (rs @ [responseData]) (responses s1)\<rparr>)
                | _ \<Rightarrow> (Inl InternalServerError, s1))
        | _ \<Rightarrow> (Inl ValidationError, s)))"

record responses_reply =
  rr_elementId :: string
  rr_responses :: responses_value
  rr_count :: "nat option"

text \<open>Lines 186-195, \<^verbatim>\<open>GET /api/responses/:elementId\<close>.\<close>

definition get_api_responses_id :: "state \<Rightarrow> string \<Rightarrow> responses_reply" where
  "get_api_responses_id s elementId =
    (let elementResponses = responses_or_empty s elementId
     in \<lparr>rr_elementId = elementId, rr_responses = elementResponses,
         rr_count = r_length elementResponses\<rparr>)"

text \<open>Lines 252-267, \<^verbatim>\<open>DELETE /api/responses\<close>.\<close>

definition delete_api_responses :: "state \<Rightarrow> string option \<Rightarrow> (error + unit) \<times> state" where
  "delete_api_responses s adminKey =
    (if adminKey \<noteq> Some ''twoleftfeet2024'' then (Inl UnauthorizedError, s)
     else (Inr (), s\<lparr>responses := []\<rparr>))"

subsection \<open>Results: \<^verbatim>\<open>GET /api/results/:elementId\<close>\<close>

record text_entry =
  text_user :: string
  text_response :: "string option"
  text_timestamp :: timestamp

record option_result =
  text_o :: string
  count :: nat
  percentage :: rat

datatype results =
    TextResults "text_entry list"
  | ChoiceResults "option_result list" "nat option"
      \<comment> \<open>\<^verbatim>\<open>options\<close>, in the order of the indices, and \<^verbatim>\<open>total\<close>\<close>

record results_reply =
  res_elementId :: string
  res_element :: element
  res_results :: results
  res_timestamp :: timestamp

text \<open>
  Lines 230-237, the body of the callback: the entry for one option, from the array of
  responses. \<open>js_percentage\<close> is lines 231 and 236, the percentage from the count and
  the length of the array.
\<close>

definition js_percentage :: "nat \<Rightarrow> nat \<Rightarrow> rat" where
  "js_percentage count' length' =
    (let percentage' =
           (if length' > 0 then js_mul (js_div (of_nat count') (of_nat length')) 100 else 0)
     in js_div (of_int (Math_round (js_mul percentage' 10))) 10)"

definition option_entry :: "responseData list \<Rightarrow> string \<Rightarrow> nat \<Rightarrow> option_result" where
  "option_entry elementResponses option' index =
    (let count' = length (filter (\<lambda>r. option r = Some (int index)) elementResponses)
     in \<lparr>text_o = option', count = count',
         percentage = js_percentage count' (length elementResponses)\<rparr>)"

text \<open>
  Line 229, \<^verbatim>\<open>element.options.forEach\<close>: the callback runs once per option, with the
  index. It calls \<^verbatim>\<open>elementResponses.filter\<close>, which only an array has; on any other value
  the first call throws.
\<close>

fun forEach_options :: "responses_value \<Rightarrow> string list \<Rightarrow> nat \<Rightarrow> error + option_result list" where
  "forEach_options elementResponses [] index = Inr []"
| "forEach_options elementResponses (option' # rest) index =
    (case elementResponses of
       RArray rs \<Rightarrow>
         (case forEach_options elementResponses rest (Suc index) of
            Inl err \<Rightarrow> Inl err
          | Inr entries \<Rightarrow> Inr (option_entry rs option' index # entries))
     | _ \<Rightarrow> Inl InternalServerError)"

text \<open>
  Lines 200-247. A value that is not an element has neither \<^verbatim>\<open>type\<close> nor \<^verbatim>\<open>options\<close>, so
  line 229 throws on it; line 215 throws when \<^verbatim>\<open>elementResponses\<close> has no \<^verbatim>\<open>map\<close>.
\<close>

definition get_api_results_id :: "state \<Rightarrow> string \<Rightarrow> timestamp \<Rightarrow> error + results_reply" where
  "get_api_results_id s elementId now =
    (let element = elements_lookup s elementId;
         elementResponses = responses_or_empty s elementId
     in if \<not> e_truthy element then Inl NotFoundError
        else
          (case element of
             EElement e \<Rightarrow>
               if type_e e = ''question'' then
                 (case elementResponses of
                    RArray rs \<Rightarrow>
                      Inr \<lparr>res_elementId = elementId, res_element = e,
                           res_results = TextResults
                             (map (\<lambda>r. \<lparr>text_user = user r, text_response = response r,
                                         text_timestamp = timestamp r\<rparr>) rs),
                           res_timestamp = now\<rparr>
                  | _ \<Rightarrow> Inl InternalServerError)
               else
                 (case forEach_options elementResponses (options e) 0 of
                    Inl err \<Rightarrow> Inl err
                  | Inr entries \<Rightarrow>
                      Inr \<lparr>res_elementId = elementId, res_element = e,
                           res_results = ChoiceResults entries (r_length elementResponses),
                           res_timestamp = now\<rparr>)
           | _ \<Rightarrow> Inl InternalServerError))"

subsection \<open>Health: \<^verbatim>\<open>GET /api/health\<close>\<close>

record health_reply =
  h_uptime :: nat
  h_timestamp :: timestamp
  h_currentSlide :: string
  h_elementsCount :: nat
  h_responsesCount :: nat

text \<open>
  Lines 272-281. \<^verbatim>\<open>Object.keys\<close> and \<^verbatim>\<open>Object.values\<close> enumerate own properties only;
  \<^verbatim>\<open>reduce\<close> adds the lengths from the left, starting at 0.
\<close>

definition get_api_health :: "state \<Rightarrow> nat \<Rightarrow> timestamp \<Rightarrow> health_reply" where
  "get_api_health s uptime now =
    \<lparr>h_uptime = uptime, h_timestamp = now, h_currentSlide = currentSlide s,
     h_elementsCount = length (map fst (presentationElements s)),
     h_responsesCount = foldl (\<lambda>total arr. total + length arr) 0 (map snd (responses s))\<rparr>"

subsection \<open>Requests and runs\<close>

datatype request =
    Sync "string option"
  | SaveElement "string option" "string option" "string option" "string list option"
  | DeleteElement string
  | SubmitResponse "string option" "string option" "string option" "int option" "string option"
  | ClearResponses "string option"
  | Query  \<comment> \<open>any of the \<^verbatim>\<open>GET\<close> routes that only read\<close>

text \<open>The state after one request, arriving when the clock shows \<open>now\<close>.\<close>

fun step :: "state \<Rightarrow> request \<times> timestamp \<Rightarrow> state" where
  "step s (Sync slideName, now) = snd (get_api_sync s slideName now)"
| "step s (SaveElement id' type' title' options', now) =
     snd (post_api_elements s id' type' title' options' now)"
| "step s (DeleteElement id', now) = snd (delete_api_elements_id s id')"
| "step s (SubmitResponse elementId user' response' option' optionText', now) =
     snd (post_api_responses s elementId user' response' option' optionText' now)"
| "step s (ClearResponses adminKey, now) = snd (delete_api_responses s adminKey)"
| "step s (Query, now) = s"

definition run :: "state \<Rightarrow> (request \<times> timestamp) list \<Rightarrow> state" where
  "run s reqs = foldl step s reqs"

text \<open>
  The requests that reach line 55 and change the slide: a sync whose \<open>slideName\<close> is
  present and not empty. Line 48 rejects every other sync, and no other route assigns
  \<^verbatim>\<open>currentSlide\<close>.
\<close>

fun slide_change :: "request \<Rightarrow> bool" where
  "slide_change (Sync (Some name)) = (name \<noteq> [])"
| "slide_change _ = False"

subsection \<open>The stored sequence of an element, and the percentage as the specification words it\<close>

text \<open>The array that \<^verbatim>\<open>responses\<close> holds as its own property \<open>elementId\<close>, empty when there is none.\<close>

definition recorded :: "state \<Rightarrow> string \<Rightarrow> responseData list" where
  "recorded s elementId = (case map_of (responses s) elementId of None \<Rightarrow> [] | Some rs \<Rightarrow> rs)"

text \<open>
  The property names that a lookup in \<^verbatim>\<open>presentationElements\<close> finds in the prototype chain
  when the object has no own property of that name.
\<close>

definition inherited :: "state \<Rightarrow> string \<Rightarrow> bool" where
  "inherited s k \<longleftrightarrow>
    k \<in> set Object_prototype_keys \<or>
    (presentationElements_proto s \<noteq> None \<and>
     k \<in> {''id'', ''type'', ''title'', ''options'', ''createdAt''})"

text \<open>
  The specification gives the percentage as \<open>round(count/total*1000)/10\<close>, and 0 when
  the total is 0. This is that formula in exact arithmetic, for comparison with
  \<open>js_percentage\<close>.
\<close>

definition spec_percentage :: "nat \<Rightarrow> nat \<Rightarrow> rat" where
  "spec_percentage count' total' =
    (if total' = 0 then 0
     else of_int (Math_round (of_nat count' / of_nat total' * 1000)) / 10)"

subsection \<open>Two polls\<close>

text \<open>
  The poll of the specification's scenario: element \<open>p1\<close> with options A and B, and the
  responses of three users.
\<close>

definition poll3 :: state where
  "poll3 = run init
    [(SaveElement (Some ''p1'') (Some ''poll'') (Some ''Poll'') (Some [''A'', ''B'']), 1),
     (SubmitResponse (Some ''p1'') (Some ''u1'') None (Some 0) None, 2),
     (SubmitResponse (Some ''p1'') (Some ''u2'') None (Some 1) None, 3),
     (SubmitResponse (Some ''p1'') (Some ''u3'') None (Some 0) None, 4)]"

text \<open>A poll with three options and 80 responses: 23 for A, 5 for B, 52 for C.\<close>

definition poll80 :: state where
  "poll80 = run init
    ((SaveElement (Some ''p1'') (Some ''poll'') (Some ''Poll'') (Some [''A'', ''B'', ''C'']), 1)
     # replicate 23 (SubmitResponse (Some ''p1'') (Some ''u'') None (Some 0) None, 2)
     @ replicate 5 (SubmitResponse (Some ''p1'') (Some ''u'') None (Some 1) None, 2)
     @ replicate 52 (SubmitResponse (Some ''p1'') (Some ''u'') None (Some 2) None, 2))"

section \<open>The number model computes binary64 rounding\<close>

text \<open>
  \<open>binade\<close> finds the exponent of its argument, so \<open>fl x\<close> is the multiple of
  \<open>2^(e-52)\<close> nearest to \<open>x\<close>; \<open>fl_divide\<close> reduces \<open>fl\<close> of a quotient of integers to
  integer division, which is how the concrete values below are computed.
\<close>

lemma floorlog_pos:
  fixes n :: nat
  assumes "0 < n"
  shows "0 < floorlog 2 n"
  using assms floorlog_eq_zero_iff [of 2 n] by (cases "floorlog 2 n") simp_all

lemma floorlog_nat_bounds:
  fixes n :: nat
  assumes "0 < n"
  shows "2 ^ (floorlog 2 n - 1) \<le> n" and "n < 2 ^ floorlog 2 n"
  using floorlog_bounds [of n 2] assms by simp_all

lemma floorlog_rat_lower:
  fixes n :: nat
  assumes "0 < n"
  shows "power_int (2::rat) (int (floorlog 2 n) - 1) \<le> of_nat n"
proof -
  from floorlog_pos [OF assms] have "int (floorlog 2 n) - 1 = int (floorlog 2 n - 1)"
    by simp
  then have "power_int (2::rat) (int (floorlog 2 n) - 1) = 2 ^ (floorlog 2 n - 1)"
    by (simp only: power_int_of_nat)
  moreover from floorlog_nat_bounds(1) [OF assms]
  have "(of_nat (2 ^ (floorlog 2 n - 1)) :: rat) \<le> of_nat n"
    by (rule of_nat_mono)
  then have "(2::rat) ^ (floorlog 2 n - 1) \<le> of_nat n"
    by simp
  ultimately show ?thesis
    by simp
qed

lemma floorlog_rat_upper:
  fixes n :: nat
  assumes "0 < n"
  shows "(of_nat n :: rat) < power_int 2 (int (floorlog 2 n))"
proof -
  from floorlog_nat_bounds(2) [OF assms]
  have "(of_nat n :: rat) < of_nat (2 ^ floorlog 2 n)"
    by (simp only: of_nat_less_iff)
  then show ?thesis
    by simp
qed


lemma binade_bounds:
  assumes "0 < x"
  shows "power_int 2 (binade x) \<le> x \<and> x < power_int 2 (binade x + 1)"
proof -
  obtain a b where q: "quotient_of x = (a, b)"
    by (cases "quotient_of x")
  then have b: "0 < b" and x: "x = of_int a / of_int b"
    by (simp_all add: quotient_of_denom_pos quotient_of_div)
  with assms have a: "0 < a"
    by (simp add: zero_less_divide_iff)
  define la lb where "la = int (floorlog 2 (nat a))" and "lb = int (floorlog 2 (nat b))"
  have A1: "power_int (2::rat) (la - 1) \<le> of_int a"
    using floorlog_rat_lower [of "nat a"] a by (simp add: la_def)
  have A2: "(of_int a :: rat) < power_int 2 la"
    using floorlog_rat_upper [of "nat a"] a by (simp add: la_def)
  have B1: "power_int (2::rat) (lb - 1) \<le> of_int b"
    using floorlog_rat_lower [of "nat b"] b by (simp add: lb_def)
  have B2: "(of_int b :: rat) < power_int 2 lb"
    using floorlog_rat_upper [of "nat b"] b by (simp add: lb_def)
  have apos: "(0::rat) < of_int a" and bpos: "(0::rat) < of_int b"
    using a b by simp_all
  have P: "(0::rat) < power_int 2 k" for k
    by simp
  have "of_int a / of_int b < power_int (2::rat) la / power_int 2 (lb - 1)"
    using apos A2 P [of "lb - 1"] B1 by (intro frac_less) simp_all
  also have "power_int (2::rat) la / power_int 2 (lb - 1) = power_int 2 (la - (lb - 1))"
    by (rule power_int_diff [symmetric]) simp
  also have "la - (lb - 1) = la - lb + 1"
    by simp
  finally have up: "x < power_int 2 (la - lb + 1)"
    by (simp only: x)
  have "power_int (2::rat) (la - 1) / power_int 2 lb < of_int a / of_int b"
    using P [of "la - 1"] A1 bpos B2 by (intro frac_less2) simp_all
  moreover have "power_int (2::rat) (la - 1) / power_int 2 lb = power_int 2 (la - 1 - lb)"
    by (rule power_int_diff [symmetric]) simp
  moreover have "la - 1 - lb = la - lb - 1"
    by simp
  ultimately have lo: "power_int 2 (la - lb - 1) < x"
    by (simp only: x)
  have bin: "binade x = (if power_int 2 (la - lb) \<le> x then la - lb else la - lb - 1)"
    by (simp add: binade_def q la_def lb_def Let_def)
  show ?thesis
  proof (cases "power_int 2 (la - lb) \<le> x")
    case True
    with bin up show ?thesis by simp
  next
    case False
    with bin lo show ?thesis by (simp add: less_imp_le)
  qed
qed


lemma binade_eqI:
  assumes "power_int 2 e \<le> x" and "x < power_int 2 (e + 1)"
  shows "binade x = e"
proof -
  have "(0::rat) < power_int 2 e"
    by simp
  with assms(1) have pos: "0 < x"
    by linarith
  from binade_bounds [OF pos]
  have 1: "power_int 2 (binade x) \<le> x" and 2: "x < power_int 2 (binade x + 1)"
    by simp_all
  have "\<not> binade x + 1 \<le> e"
  proof
    assume "binade x + 1 \<le> e"
    then have "power_int (2::rat) (binade x + 1) \<le> power_int 2 e"
      by (rule power_int_increasing) simp
    with assms(1) 2 show False
      by linarith
  qed
  moreover have "\<not> e + 1 \<le> binade x"
  proof
    assume "e + 1 \<le> binade x"
    then have "power_int (2::rat) (e + 1) \<le> power_int 2 (binade x)"
      by (rule power_int_increasing) simp
    with assms(2) 1 show False
      by linarith
  qed
  ultimately show ?thesis
    by linarith
qed

lemma fl_scaled:
  fixes k :: nat
  assumes "2 ^ 52 \<le> x * 2 ^ k" and "x * 2 ^ k < 2 ^ 53"
  shows "fl x = of_int (round_ties_even (x * 2 ^ k)) / 2 ^ k"
proof -
  have k: "(0::rat) < 2 ^ k"
    by simp
  have "(0::rat) < 2 ^ 52"
    by simp
  with assms(1) have "0 < x * 2 ^ k"
    by linarith
  with k have pos: "0 < x"
    by (simp add: zero_less_mult_iff)
  have lo: "power_int (2::rat) (52 - int k) = 2 ^ 52 / 2 ^ k"
    using power_int_diff [of "2::rat" 52 "int k"] by simp
  have hi: "power_int (2::rat) (52 - int k + 1) = 2 ^ 53 / 2 ^ k"
    using power_int_diff [of "2::rat" 53 "int k"] by (simp add: algebra_simps)
  have "power_int 2 (52 - int k) \<le> x"
    unfolding lo using assms(1) k by (simp add: pos_divide_le_eq)
  moreover have "x < power_int 2 (52 - int k + 1)"
    unfolding hi using assms(2) k by (simp add: pos_less_divide_eq)
  ultimately have b: "binade x = 52 - int k"
    by (rule binade_eqI)
  have u: "power_int (2::rat) (- int k) = 1 / 2 ^ k"
    by (simp add: power_int_minus_divide)
  from pos have "fl x = of_int (round_ties_even (x / power_int 2 (- int k))) * power_int 2 (- int k)"
    by (simp add: fl_def b Let_def)
  then show ?thesis
    by (simp only: u) simp
qed


lemma round_ties_even_divide:
  fixes a b :: int
  assumes "0 < b"
  shows "round_ties_even (of_int a / of_int b) =
    (if 2 * (a mod b) < b then a div b
     else if b < 2 * (a mod b) then a div b + 1
     else if even (a div b) then a div b else a div b + 1)"
proof -
  have fl: "\<lfloor>(of_int a / of_int b :: rat)\<rfloor> = a div b"
    by (rule floor_divide_of_int_eq)
  have bpos: "(0::rat) < of_int b"
    using assms by simp
  have "(of_int a :: rat) = of_int (a div b * b + a mod b)"
    by simp
  also have "\<dots> = of_int (a div b) * of_int b + of_int (a mod b)"
    by (simp only: of_int_add of_int_mult)
  finally have "(of_int a / of_int b :: rat) = of_int (a div b) + of_int (a mod b) / of_int b"
    using bpos by (simp add: field_simps)
  then have r: "(of_int a / of_int b :: rat) - of_int (a div b) = of_int (a mod b) / of_int b"
    by simp
  have lt: "(of_int (a mod b) / of_int b :: rat) < 1 / 2 \<longleftrightarrow> 2 * (a mod b) < b"
  proof -
    have "(of_int (a mod b) / of_int b :: rat) < 1 / 2 \<longleftrightarrow> (of_int (2 * (a mod b)) :: rat) < of_int b"
      using bpos by (simp add: field_simps)
    also have "\<dots> \<longleftrightarrow> 2 * (a mod b) < b"
      by (rule of_int_less_iff)
    finally show ?thesis .
  qed
  have gt: "1 / 2 < (of_int (a mod b) / of_int b :: rat) \<longleftrightarrow> b < 2 * (a mod b)"
  proof -
    have "1 / 2 < (of_int (a mod b) / of_int b :: rat) \<longleftrightarrow> (of_int b :: rat) < of_int (2 * (a mod b))"
      using bpos by (simp add: field_simps)
    also have "\<dots> \<longleftrightarrow> b < 2 * (a mod b)"
      by (rule of_int_less_iff)
    finally show ?thesis .
  qed
  show ?thesis
    unfolding round_ties_even_def Let_def fl r lt gt ..
qed

lemma fl_divide:
  fixes a b :: int and k :: nat
  assumes "0 < b" and "2 ^ 52 * b \<le> a * 2 ^ k" and "a * 2 ^ k < 2 ^ 53 * b"
    and "m = (let p = a * 2 ^ k
              in if 2 * (p mod b) < b then p div b
                 else if b < 2 * (p mod b) then p div b + 1
                 else if even (p div b) then p div b else p div b + 1)"
  shows "fl (of_int a / of_int b) = of_int m / 2 ^ k"
proof -
  have bpos: "(0::rat) < of_int b"
    using assms(1) by simp
  have s: "(of_int a / of_int b :: rat) * 2 ^ k = of_int (a * 2 ^ k) / of_int b"
    by simp
  have "(of_int (2 ^ 52 * b) :: rat) \<le> of_int (a * 2 ^ k)"
    using assms(2) by (simp only: of_int_le_iff)
  then have 1: "(2::rat) ^ 52 \<le> of_int a / of_int b * 2 ^ k"
    unfolding s using bpos by (simp add: pos_le_divide_eq)
  have "(of_int (a * 2 ^ k) :: rat) < of_int (2 ^ 53 * b)"
    using assms(3) by (simp only: of_int_less_iff)
  then have 2: "of_int a / of_int b * 2 ^ k < (2::rat) ^ 53"
    unfolding s using bpos by (simp add: pos_divide_less_eq)
  show ?thesis
    unfolding fl_scaled [OF 1 2] s round_ties_even_divide [OF assms(1)] assms(4) Let_def ..
qed

text \<open>
  The result of \<open>fl\<close> is within half a unit in the last place of its argument, and
  \<open>fl\<close> of one tenth is the binary64 number that the literal \<^verbatim>\<open>0.1\<close> denotes.
\<close>

lemma round_ties_even_error: "\<bar>of_int (round_ties_even q) - q\<bar> \<le> 1 / 2"
proof -
  have lo: "of_int \<lfloor>q\<rfloor> \<le> q" and hi: "q < of_int \<lfloor>q\<rfloor> + 1"
    by linarith+
  show ?thesis
    unfolding round_ties_even_def Let_def using lo hi
    by (auto simp: abs_le_iff)
qed

lemma fl_error:
  assumes "0 < x"
  shows "\<bar>fl x - x\<bar> \<le> power_int 2 (binade x - 53)"
proof -
  let ?u = "power_int (2::rat) (binade x - 52)"
  have u: "0 < ?u"
    by simp
  from assms have f: "fl x = of_int (round_ties_even (x / ?u)) * ?u"
    by (simp add: fl_def Let_def)
  have "fl x - x = (of_int (round_ties_even (x / ?u)) - x / ?u) * ?u"
    unfolding f using u by (simp add: field_simps)
  then have "\<bar>fl x - x\<bar> = \<bar>of_int (round_ties_even (x / ?u)) - x / ?u\<bar> * ?u"
    using u by (simp add: abs_mult)
  also have "\<dots> \<le> 1 / 2 * ?u"
    using round_ties_even_error [of "x / ?u"] u by (intro mult_right_mono) simp_all
  also have "1 / 2 * ?u = power_int 2 (binade x - 53)"
    using power_int_add [of "2::rat" "binade x - 53" 1] by simp
  finally show ?thesis .
qed

lemma fl_0_1: "fl (1 / 10) = 3602879701896397 / 36028797018963968"
proof -
  have "fl (of_int 1 / of_int 10) = of_int 7205759403792794 / 2 ^ 56"
    by (rule fl_divide) simp_all
  then show ?thesis
    by simp
qed

lemma floor_rat_numeral: "\<lfloor>numeral a / numeral b :: rat\<rfloor> = numeral a div numeral b"
  by (metis floor_divide_of_int_eq of_int_numeral)

section \<open>Runs and lookups\<close>

lemma run_Nil: "run s [] = s"
  by (simp add: run_def)

lemma run_snoc: "run s (reqs @ [r]) = step (run s reqs) r"
  by (simp add: run_def)

lemma run_Cons: "run s (r # reqs) = run (step s r) reqs"
  by (simp add: run_def)

lemma run_append: "run s (reqs @ reqs') = run (run s reqs) reqs'"
  by (simp add: run_def)

lemma sync_valid:
  "name \<noteq> [] \<Longrightarrow>
    get_api_sync s (Some name) now =
      (Inr \<lparr>sync_message = ''Slide updated to: '' @ name, sync_timestamp = now\<rparr>,
       s\<lparr>currentSlide := name\<rparr>)"
  by (simp add: get_api_sync_def)

lemma elements_lookup_own:
  "map_of (presentationElements s) k = Some e \<Longrightarrow> elements_lookup s k = EElement e"
  by (simp add: elements_lookup_def)

lemma responses_lookup_own:
  "map_of (responses s) k = Some rs \<Longrightarrow> responses_lookup s k = RArray rs"
  by (simp add: responses_lookup_def)

lemma responses_lookup_absent:
  "map_of (responses s) k = None \<Longrightarrow> k \<notin> set Object_prototype_keys \<Longrightarrow>
    responses_lookup s k = RUndefined"
  by (simp add: responses_lookup_def)

lemma responses_or_empty_recorded:
  "map_of (responses s) k \<noteq> None \<or> k \<notin> set Object_prototype_keys \<Longrightarrow>
    responses_or_empty s k = RArray (recorded s k)"
  by (auto simp: responses_or_empty_def responses_lookup_def recorded_def split: option.splits)

lemma elements_lookup_assign:
  "elements_lookup (elements_assign s k e) k = EElement e"
  by (auto simp: elements_lookup_def elements_assign_def update_conv' split: option.splits)

lemma proto_key_in_keys: "''__proto__'' \<in> set Object_prototype_keys"
  by (simp add: Object_prototype_keys_def)

lemma elements_lookup_absent:
  assumes "map_of (presentationElements s) k = None" and "\<not> inherited s k"
  shows "elements_lookup s k = EUndefined"
proof (cases "presentationElements_proto s")
  case None
  with assms show ?thesis
    by (simp add: elements_lookup_def inherited_def)
next
  case (Some p)
  with assms(2) have "k \<notin> set Object_prototype_keys"
    and "k \<noteq> ''id''" "k \<noteq> ''type''" "k \<noteq> ''title''" "k \<noteq> ''options''" "k \<noteq> ''createdAt''"
    unfolding inherited_def by blast+
  moreover from this(1) proto_key_in_keys have "k \<noteq> ''__proto__''"
    by blast
  ultimately show ?thesis
    using assms(1) Some by (simp add: elements_lookup_def)
qed

section \<open>The slide\<close>

lemma currentSlide_run_syncs:
  assumes "calls \<noteq> []" and "\<forall>c\<in>set calls. fst c \<noteq> []"
  shows "currentSlide (run s (map (\<lambda>c. (Sync (Some (fst c)), snd c)) calls)) = fst (last calls)"
  using assms
proof (induction calls rule: rev_induct)
  case Nil
  then show ?case by simp
next
  case (snoc c calls)
  then show ?case
    by (simp add: run_snoc sync_valid)
qed

text \<open>
  Claim C6. A call \<open>setSlide(name)\<close> is a request to \<^verbatim>\<open>/api/sync\<close> with a non-empty
  \<open>slideName\<close>, made at some time. After the first \<open>N + 1\<close> calls of any sequence of such
  calls, from any state, \<open>getSlide\<close> returns the name of call number \<open>N\<close> (counting from
  0); and right after \<open>setSlide("Slide3")\<close> it returns \<open>Slide3\<close>.
\<close>

theorem getSlide_after_Nth_setSlide:
  assumes "\<forall>c\<in>set calls. fst c \<noteq> []" and "N < length calls"
  shows "slide_currentSlide
           (get_api_current_slide
              (run s (map (\<lambda>c. (Sync (Some (fst c)), snd c)) (take (Suc N) calls))) now)
         = fst (calls ! N) \<and>
         slide_currentSlide
           (get_api_current_slide (snd (get_api_sync s (Some ''Slide3'') t)) now) = ''Slide3''"
proof -
  from assms(2) have ne: "take (Suc N) calls \<noteq> []"
    by auto
  from assms(1) have "\<forall>c\<in>set (take (Suc N) calls). fst c \<noteq> []"
    by (meson in_set_takeD)
  from currentSlide_run_syncs [OF ne this]
  have "currentSlide (run s (map (\<lambda>c. (Sync (Some (fst c)), snd c)) (take (Suc N) calls)))
          = fst (last (take (Suc N) calls))" .
  also from assms(2) have "last (take (Suc N) calls) = calls ! N"
    by (simp add: take_Suc_conv_app_nth)
  finally show ?thesis
    by (simp add: get_api_current_slide_def sync_valid)
qed

theorem getSlide_after_Nth_setSlide_witness:
  "''Slide1'' \<noteq> [] \<and> ''Slide2'' \<noteq> [] \<and> ''Slide3'' \<noteq> [] \<and>
   (1::nat) < length [(''Slide1'', 10), (''Slide2'', 20), (''Slide3'', 30::nat)] \<and>
   slide_currentSlide
     (get_api_current_slide
        (run init [(Sync (Some ''Slide1''), 10), (Sync (Some ''Slide2''), 20)]) 21) = ''Slide2''"
  using getSlide_after_Nth_setSlide
    [of "[(''Slide1'', 10), (''Slide2'', 20), (''Slide3'', 30)]" 1 init 21]
  by simp

section \<open>Clearing the responses\<close>

text \<open>
  Claim C5. The proof of admin rights is the query parameter \<open>adminKey\<close>, valid when it is
  the string of line 255. With any other key, or none, \<open>clearAllResponses\<close> answers
  \<open>UnauthorizedError\<close> and the state is the one before the call, so \<open>listResponses\<close>
  answers for every element as before.
\<close>

theorem clearAllResponses_unauthorized:
  assumes "adminKey \<noteq> Some ''twoleftfeet2024''"
  shows "delete_api_responses s adminKey = (Inl UnauthorizedError, s) \<and>
         get_api_responses_id (snd (delete_api_responses s adminKey)) elementId =
           get_api_responses_id s elementId"
  using assms by (simp add: delete_api_responses_def)

theorem clearAllResponses_unauthorized_witness:
  "Some ''letmein'' \<noteq> Some ''twoleftfeet2024'' \<and>
   delete_api_responses poll3 (Some ''letmein'') = (Inl UnauthorizedError, poll3) \<and>
   get_api_responses_id (snd (delete_api_responses poll3 (Some ''letmein''))) ''p1'' =
     get_api_responses_id poll3 ''p1''"
  using clearAllResponses_unauthorized [of "Some ''letmein''" poll3 "''p1''"] by auto

section \<open>Saving an element\<close>

lemma post_api_elements_invalid:
  "falsy id' \<or> falsy type' \<or> falsy title' \<Longrightarrow>
    post_api_elements s id' type' title' options' now = (Inl ValidationError, s)"
  by (simp add: post_api_elements_def)

lemma post_api_elements_valid:
  "i \<noteq> [] \<Longrightarrow> ty \<noteq> [] \<Longrightarrow> ti \<noteq> [] \<Longrightarrow>
    post_api_elements s (Some i) (Some ty) (Some ti) options' now =
      (Inr (EElement \<lparr>id_e = i, type_e = ty, title = ti,
                options = (case options' of None \<Rightarrow> [] | Some os \<Rightarrow> os), createdAt = now\<rparr>),
       elements_assign s i \<lparr>id_e = i, type_e = ty, title = ti,
                options = (case options' of None \<Rightarrow> [] | Some os \<Rightarrow> os), createdAt = now\<rparr>)"
  by (simp add: post_api_elements_def Let_def elements_lookup_assign)

lemma post_api_elements_responses:
  "responses (snd (post_api_elements s id' type' title' options' now)) = responses s"
  by (cases id'; cases type'; cases title')
     (simp_all add: post_api_elements_def elements_assign_def Let_def)

lemma post_api_elements_currentSlide:
  "currentSlide (snd (post_api_elements s id' type' title' options' now)) = currentSlide s"
  by (cases id'; cases type'; cases title')
     (simp_all add: post_api_elements_def elements_assign_def Let_def)

section \<open>The slide and the other requests\<close>

lemma post_api_responses_currentSlide:
  "currentSlide (snd (post_api_responses s elementId user' response' option' optionText' now))
    = currentSlide s"
  by (cases elementId; cases user')
     (simp_all add: post_api_responses_def Let_def split: responses_value.splits)

lemma step_keeps_slide:
  assumes "\<not> slide_change (fst r)"
  shows "currentSlide (step s r) = currentSlide s"
proof -
  obtain q now where r: "r = (q, now)"
    by (cases r)
  show ?thesis
  proof (cases q)
    case (Sync slideName)
    with assms r have "slideName = None \<or> slideName = Some []"
      by (cases slideName) simp_all
    with Sync r show ?thesis
      by (auto simp: get_api_sync_def)
  next
    case (SaveElement id' type' title' options')
    with r show ?thesis
      by (simp add: post_api_elements_currentSlide)
  next
    case (DeleteElement id')
    with r show ?thesis
      by (simp add: delete_api_elements_id_def)
  next
    case (SubmitResponse elementId user' response' option' optionText')
    with r show ?thesis
      by (simp add: post_api_responses_currentSlide)
  next
    case (ClearResponses adminKey)
    with r show ?thesis
      by (simp add: delete_api_responses_def)
  next
    case Query
    with r show ?thesis
      by simp
  qed
qed

lemma run_keeps_slide:
  assumes "\<forall>r\<in>set reqs. \<not> slide_change (fst r)"
  shows "currentSlide (run s reqs) = currentSlide s"
  using assms
proof (induction reqs rule: rev_induct)
  case Nil
  show ?case by (simp add: run_Nil)
next
  case (snoc r reqs)
  then show ?case
    by (simp add: run_snoc step_keeps_slide)
qed

text \<open>
  Claim C7, as the code has it. The state holds the name of the slide and no time. A
  successful \<open>setSlide(name)\<close> answers with the time of the write and stores only the name.
  Whatever requests follow it, as long as none of them changes the slide (rejected
  syncs, saves, deletions, submissions, clears and reads, in any number and order),
  \<open>getSlide\<close> answers with that name and with the time at which \<open>getSlide\<close> itself is
  called: in every history of requests, the name is that of the last successful
  \<open>setSlide\<close>, whatever came before it. Before the first slide change, likewise,
  \<open>getSlide\<close> answers with the slide of the state the requests started from.
\<close>

theorem slide_timestamp_is_time_of_read:
  assumes "name \<noteq> []" and "\<forall>r\<in>set reqs. \<not> slide_change (fst r)"
  shows "fst (get_api_sync s (Some name) t) =
           Inr \<lparr>sync_message = ''Slide updated to: '' @ name, sync_timestamp = t\<rparr> \<and>
         snd (get_api_sync s (Some name) t) = s\<lparr>currentSlide := name\<rparr> \<and>
         get_api_current_slide (snd (get_api_sync s (Some name) t)) now =
           \<lparr>slide_currentSlide = name, slide_timestamp = now\<rparr> \<and>
         get_api_current_slide (run (snd (get_api_sync s (Some name) t)) reqs) now =
           \<lparr>slide_currentSlide = name, slide_timestamp = now\<rparr> \<and>
         get_api_current_slide (run s (pre @ (Sync (Some name), t) # reqs)) now =
           \<lparr>slide_currentSlide = name, slide_timestamp = now\<rparr> \<and>
         get_api_current_slide (run s reqs) now =
           \<lparr>slide_currentSlide = currentSlide s, slide_timestamp = now\<rparr>"
  using assms
  by (simp add: sync_valid get_api_current_slide_def run_keeps_slide run_append run_Cons)

theorem slide_timestamp_is_time_of_read_witness:
  "''Slide3'' \<noteq> [] \<and>
   \<not> slide_change (Sync (Some '''')) \<and>
   \<not> slide_change (Sync None) \<and>
   \<not> slide_change (DeleteElement ''p1'') \<and>
   \<not> slide_change (SubmitResponse (Some ''p1'') (Some ''u4'') None (Some 1) None) \<and>
   \<not> slide_change (ClearResponses (Some ''twoleftfeet2024'')) \<and>
   \<not> slide_change (SaveElement (Some ''p2'') (Some ''vote'') (Some ''Vote'') None) \<and>
   get_api_current_slide
     (run (snd (get_api_sync poll3 (Some ''Slide3'') 10))
        [(Sync (Some ''''), 11), (Sync None, 12), (DeleteElement ''p1'', 13),
         (SubmitResponse (Some ''p1'') (Some ''u4'') None (Some 1) None, 14),
         (ClearResponses (Some ''twoleftfeet2024''), 15),
         (SaveElement (Some ''p2'') (Some ''vote'') (Some ''Vote'') None, 16)]) 17 =
     \<lparr>slide_currentSlide = ''Slide3'', slide_timestamp = 17\<rparr>"
proof -
  let ?reqs = "[(Sync (Some ''''), 11), (Sync None, 12), (DeleteElement ''p1'', 13),
         (SubmitResponse (Some ''p1'') (Some ''u4'') None (Some 1) None, 14),
         (ClearResponses (Some ''twoleftfeet2024''), 15),
         (SaveElement (Some ''p2'') (Some ''vote'') (Some ''Vote'') None, 16::nat)]"
  have n: "''Slide3'' \<noteq> []"
    by simp
  have q: "\<forall>r\<in>set ?reqs. \<not> slide_change (fst r)"
    by simp
  from slide_timestamp_is_time_of_read [OF n q, of poll3 10 17]
  have "get_api_current_slide (run (snd (get_api_sync poll3 (Some ''Slide3'') 10)) ?reqs) 17 =
      \<lparr>slide_currentSlide = ''Slide3'', slide_timestamp = 17\<rparr>"
    by blast
  then show ?thesis
    by simp
qed

text \<open>
  Claim C7, as stated, fails: after \<open>setSlide("Slide3")\<close> at time 1, two calls of
  \<open>getSlide\<close> at times 2 and 5, with no slide change between them, return different
  timestamps, and neither is the time 1 that \<open>setSlide\<close> stamped.
\<close>

theorem updatedAt_counterexample:
  "slide_timestamp (get_api_current_slide (snd (get_api_sync init (Some ''Slide3'') 1)) 2)
     \<noteq> slide_timestamp (get_api_current_slide (snd (get_api_sync init (Some ''Slide3'') 1)) 5) \<and>
   fst (get_api_sync init (Some ''Slide3'') 1) =
     Inr \<lparr>sync_message = ''Slide updated to: Slide3'', sync_timestamp = 1\<rparr> \<and>
   slide_timestamp (get_api_current_slide (snd (get_api_sync init (Some ''Slide3'') 1)) 2) \<noteq> 1"
  by (simp add: get_api_sync_def get_api_current_slide_def)

section \<open>Keys stay distinct, and the health counts\<close>

lemma get_api_sync_frame:
  "presentationElements (snd (get_api_sync s n t)) = presentationElements s"
  "responses (snd (get_api_sync s n t)) = responses s"
  by (cases n; simp add: get_api_sync_def)+

lemma post_api_elements_keys:
  "distinct (map fst (presentationElements s)) \<Longrightarrow>
    distinct (map fst (presentationElements (snd (post_api_elements s id' type' title' options' now))))"
  by (cases id'; cases type'; cases title')
     (simp_all add: post_api_elements_def elements_assign_def Let_def distinct_update)

lemma delete_api_elements_id_keys:
  "distinct (map fst (presentationElements s)) \<Longrightarrow>
    distinct (map fst (presentationElements (snd (delete_api_elements_id s id'))))"
  "distinct (map fst (responses s)) \<Longrightarrow>
    distinct (map fst (responses (snd (delete_api_elements_id s id'))))"
  by (simp_all add: delete_api_elements_id_def distinct_delete)

lemma post_api_responses_elements:
  "presentationElements (snd (post_api_responses s elementId user' response' option' optionText' now))
    = presentationElements s"
  by (cases elementId; cases user')
     (simp_all add: post_api_responses_def Let_def split: responses_value.splits)

lemma post_api_responses_keys:
  "distinct (map fst (responses s)) \<Longrightarrow>
    distinct (map fst (responses
      (snd (post_api_responses s elementId user' response' option' optionText' now))))"
  by (cases elementId; cases user')
     (simp_all add: post_api_responses_def Let_def distinct_update split: responses_value.splits)

lemma delete_api_responses_frame:
  "presentationElements (snd (delete_api_responses s adminKey)) = presentationElements s"
  "distinct (map fst (responses s)) \<Longrightarrow>
     distinct (map fst (responses (snd (delete_api_responses s adminKey))))"
  by (simp_all add: delete_api_responses_def)

lemma step_distinct:
  assumes "distinct (map fst (presentationElements s))" and "distinct (map fst (responses s))"
  shows "distinct (map fst (presentationElements (step s r)))"
    and "distinct (map fst (responses (step s r)))"
proof -
  obtain q now where r: "r = (q, now)"
    by (cases r)
  show "distinct (map fst (presentationElements (step s r)))"
    unfolding r using assms(1)
    by (cases q)
       (simp_all add: get_api_sync_frame post_api_elements_keys delete_api_elements_id_keys
          post_api_responses_elements delete_api_responses_frame)
  show "distinct (map fst (responses (step s r)))"
    unfolding r using assms(2)
    by (cases q)
       (simp_all add: get_api_sync_frame post_api_elements_responses delete_api_elements_id_keys
          post_api_responses_keys delete_api_responses_frame)
qed

lemma run_distinct:
  "distinct (map fst (presentationElements (run init reqs))) \<and>
   distinct (map fst (responses (run init reqs)))"
proof (induction reqs rule: rev_induct)
  case Nil
  show ?case by (simp add: run_Nil init_def)
next
  case (snoc r reqs)
  then show ?case
    by (simp add: run_snoc step_distinct)
qed

lemma foldl_add_lengths:
  "foldl (\<lambda>total arr. total + length arr) n arrs = n + sum_list (map length arrs)"
  by (induction arrs arbitrary: n) simp_all

lemma recorded_own:
  assumes "distinct (map fst (responses s))" and "p \<in> set (responses s)"
  shows "recorded s (fst p) = snd p"
proof -
  from assms have "map_of (responses s) (fst p) = Some (snd p)"
    by (intro map_of_is_SomeI) simp_all
  then show ?thesis
    by (simp add: recorded_def)
qed

lemma sum_recorded:
  assumes "distinct (map fst (responses s))"
  shows "foldl (\<lambda>total arr. total + length arr) 0 (map snd (responses s)) =
    (\<Sum>k\<in>fst ` set (responses s). length (recorded s k))"
proof -
  have "foldl (\<lambda>total arr. total + length arr) 0 (map snd (responses s)) =
      sum_list (map length (map snd (responses s)))"
    by (simp add: foldl_add_lengths)
  also have "map length (map snd (responses s)) =
      map (\<lambda>k. length (recorded s k)) (map fst (responses s))"
    using recorded_own [OF assms] by simp
  also have "sum_list (map (\<lambda>k. length (recorded s k)) (map fst (responses s))) =
      (\<Sum>k\<in>set (map fst (responses s)). length (recorded s k))"
    using assms by (rule sum_list_distinct_conv_sum_set)
  finally show ?thesis
    by simp
qed

text \<open>
  \<open>getHealth\<close> has no failing branch: it is a function to a reply. In every state that
  the server can reach from its start, \<open>responsesCount\<close> is the sum over the keys of the
  response store of the length of the sequence stored under the key, \<open>elementsCount\<close> is
  the number of distinct own keys of \<^verbatim>\<open>presentationElements\<close>, the ids that
  \<open>listElements\<close> lists, and \<open>currentSlide\<close> is the value that \<open>getSlide\<close> returns.
\<close>

lemma health_counts_own_keys:
  "get_api_health (run init reqs) uptime now =
    \<lparr>h_uptime = uptime, h_timestamp = now,
     h_currentSlide = slide_currentSlide (get_api_current_slide (run init reqs) now),
     h_elementsCount = card (fst ` set (get_api_elements (run init reqs))),
     h_responsesCount =
       (\<Sum>k\<in>fst ` set (responses (run init reqs)). length (recorded (run init reqs) k))\<rparr>"
proof -
  have d: "distinct (map fst (presentationElements (run init reqs)))"
    and d': "distinct (map fst (responses (run init reqs)))"
    using run_distinct by simp_all
  from d have "card (fst ` set (presentationElements (run init reqs))) =
      length (map fst (presentationElements (run init reqs)))"
    using distinct_card [of "map fst (presentationElements (run init reqs))"] by simp
  then show ?thesis
    by (simp add: get_api_health_def get_api_elements_def get_api_current_slide_def
        sum_recorded [OF d'])
qed

text \<open>
  Claim C9 at the id \<^verbatim>\<open>__proto__\<close>: saving an element under that id on a server just
  started succeeds, and \<open>get\<close> of the id returns the element, so one element is live; but
  line 87 has run the inherited setter instead of creating a property, so
  \<open>listElements\<close> lists nothing and \<open>getHealth\<close> reports \<open>elementsCount\<close> 0.
\<close>

theorem health_elementsCount_proto:
  "fst (post_api_elements init (Some ''__proto__'') (Some ''poll'') (Some ''Poll'') None 5) =
     Inr (EElement \<lparr>id_e = ''__proto__'', type_e = ''poll'', title = ''Poll'', options = [],
                     createdAt = 5\<rparr>) \<and>
   get_api_elements_id
     (snd (post_api_elements init (Some ''__proto__'') (Some ''poll'') (Some ''Poll'') None 5))
     ''__proto__'' =
     Inr (EElement \<lparr>id_e = ''__proto__'', type_e = ''poll'', title = ''Poll'', options = [],
                     createdAt = 5\<rparr>) \<and>
   get_api_elements
     (snd (post_api_elements init (Some ''__proto__'') (Some ''poll'') (Some ''Poll'') None 5)) = [] \<and>
   h_elementsCount
     (get_api_health
        (snd (post_api_elements init (Some ''__proto__'') (Some ''poll'') (Some ''Poll'') None 5))
        7 6) = 0"
proof -
  let ?e = "\<lparr>id_e = ''__proto__'', type_e = ''poll'', title = ''Poll'', options = [],
             createdAt = 5\<rparr>"
  have p: "post_api_elements init (Some ''__proto__'') (Some ''poll'') (Some ''Poll'') None 5 =
      (Inr (EElement ?e), init\<lparr>presentationElements_proto := Some ?e\<rparr>)"
    by (simp add: post_api_elements_valid elements_assign_def init_def)
  have l: "elements_lookup (init\<lparr>presentationElements_proto := Some ?e\<rparr>) ''__proto__'' =
      EElement ?e"
    by (simp add: elements_lookup_def init_def)
  show ?thesis
    unfolding p
    by (simp add: get_api_elements_id_def l get_api_elements_def get_api_health_def)
       (simp add: init_def)
qed

section \<open>Aggregation\<close>

lemma forEach_options_array:
  "forEach_options (RArray rs) os index =
    Inr (map (\<lambda>(i, option'). option_entry rs option' i) (enumerate index os))"
  by (induction os arbitrary: index) simp_all

lemma Math_round_0: "Math_round 0 = 0"
proof -
  have "\<lfloor>(1 / 2 :: rat)\<rfloor> = 0"
    by (rule floor_unique) simp_all
  then show ?thesis
    by (simp add: Math_round_def)
qed

lemma js_percentage_zero: "js_percentage c 0 = 0"
  by (simp add: js_percentage_def js_mul_def js_div_def fl_def Math_round_0)

lemma get_api_results_id_choice:
  assumes "map_of (presentationElements s) elementId = Some e"
    and "type_e e \<noteq> ''question''"
    and "map_of (responses s) elementId \<noteq> None \<or> elementId \<notin> set Object_prototype_keys"
  shows "get_api_results_id s elementId now =
    Inr \<lparr>res_elementId = elementId, res_element = e,
         res_results = ChoiceResults
           (map (\<lambda>(i, option'). option_entry (recorded s elementId) option' i)
              (enumerate 0 (options e)))
           (Some (length (recorded s elementId))),
         res_timestamp = now\<rparr>"
  using assms(2)
  by (simp add: get_api_results_id_def elements_lookup_own [OF assms(1)]
      responses_or_empty_recorded [OF assms(3)] forEach_options_array)

lemma get_api_results_id_text:
  assumes "map_of (presentationElements s) elementId = Some e"
    and "type_e e = ''question''"
    and "map_of (responses s) elementId \<noteq> None \<or> elementId \<notin> set Object_prototype_keys"
  shows "get_api_results_id s elementId now =
    Inr \<lparr>res_elementId = elementId, res_element = e,
         res_results = TextResults
           (map (\<lambda>r. \<lparr>text_user = user r, text_response = response r,
                       text_timestamp = timestamp r\<rparr>) (recorded s elementId)),
         res_timestamp = now\<rparr>"
  using assms(2)
  by (simp add: get_api_results_id_def elements_lookup_own [OF assms(1)]
      responses_or_empty_recorded [OF assms(3)])

lemma entries_upt:
  "map (\<lambda>(i, option'). option_entry rs option' i) (enumerate 0 os) =
    map (\<lambda>i. option_entry rs (os ! i) i) [0..<length os]"
  by (rule nth_equalityI) (simp_all add: nth_enumerate_eq)

lemma js_percentage_inline:
  "js_percentage c n =
    (if n = 0 then 0
     else js_div (of_int (Math_round (js_mul (js_mul (js_div (of_nat c) (of_nat n)) 100) 10))) 10)"
  by (cases "n = 0") (simp_all add: js_percentage_zero, simp add: js_percentage_def)

lemma post_api_responses_regular:
  assumes "eid \<noteq> []" and "u \<noteq> []"
    and "map_of (responses s) eid \<noteq> None \<or> eid \<notin> set Object_prototype_keys"
  shows "post_api_responses s (Some eid) (Some u) r opt ot now =
    (Inr (Suc (length (recorded s eid))),
     s\<lparr>responses := AList.update eid
          (recorded s eid @ [\<lparr>user = u, timestamp = now, response = r, option = opt,
                               optionText = ot\<rparr>])
          (responses s)\<rparr>)"
proof (cases "map_of (responses s) eid")
  case None
  with assms(3) have "eid \<notin> set Object_prototype_keys"
    by simp
  with None assms(1,2) show ?thesis
    by (simp add: post_api_responses_def responses_lookup_def recorded_def update_conv')
next
  case (Some rs)
  with assms(1,2) show ?thesis
    by (simp add: post_api_responses_def responses_lookup_def recorded_def)
qed

lemma recorded_update:
  "recorded (s\<lparr>responses := AList.update k rs (responses s)\<rparr>) k' =
    (if k' = k then rs else recorded s k')"
  by (simp add: recorded_def update_conv')

lemma run_submits:
  assumes "eid \<noteq> []" and "u \<noteq> []"
    and "map_of (responses s) eid \<noteq> None \<or> eid \<notin> set Object_prototype_keys"
  shows "run s (replicate (Suc n) (SubmitResponse (Some eid) (Some u) r opt ot, now)) =
    s\<lparr>responses := AList.update eid
         (recorded s eid @ replicate (Suc n) \<lparr>user = u, timestamp = now, response = r,
                                              option = opt, optionText = ot\<rparr>)
         (responses s)\<rparr>"
proof (induction n)
  case 0
  show ?case
    by (simp add: run_def post_api_responses_regular [OF assms])
next
  case (Suc n)
  let ?rd = "\<lparr>user = u, timestamp = now, response = r, option = opt, optionText = ot\<rparr>"
  let ?q = "(SubmitResponse (Some eid) (Some u) r opt ot, now)"
  let ?s' = "s\<lparr>responses := AList.update eid (recorded s eid @ replicate (Suc n) ?rd)
                  (responses s)\<rparr>"
  have own: "map_of (responses ?s') eid \<noteq> None \<or> eid \<notin> set Object_prototype_keys"
    by (simp add: update_conv')
  have "replicate (Suc (Suc n)) ?q = replicate (Suc n) ?q @ [?q]"
    using replicate_append_same [of "Suc n" ?q] by simp
  then have "run s (replicate (Suc (Suc n)) ?q) = step (run s (replicate (Suc n) ?q)) ?q"
    by (simp only: run_snoc)
  also have "\<dots> = step ?s' ?q"
    by (simp only: Suc.IH)
  also have "\<dots> = s\<lparr>responses := AList.update eid
         (recorded s eid @ replicate (Suc (Suc n)) ?rd) (responses s)\<rparr>"
    using post_api_responses_regular [OF assms(1,2) own, of r opt ot now]
    by (simp add: recorded_update replicate_append_same)
  finally show ?case .
qed
lemma save_p1:
  "step init (SaveElement (Some ''p1'') (Some ''poll'') (Some ''Poll'') os, 1) =
    init\<lparr>presentationElements :=
      [(''p1'', \<lparr>id_e = ''p1'', type_e = ''poll'', title = ''Poll'',
                options = (case os of None \<Rightarrow> [] | Some os \<Rightarrow> os), createdAt = 1\<rparr>)]\<rparr>"
  by (simp add: post_api_elements_valid elements_assign_def init_def)

lemma p1_regular: "''p1'' \<notin> set Object_prototype_keys"
  by (simp add: Object_prototype_keys_def)

lemma poll3_state:
  "poll3 =
    \<lparr>currentSlide = '''',
     presentationElements =
       [(''p1'', \<lparr>id_e = ''p1'', type_e = ''poll'', title = ''Poll'', options = [''A'', ''B''],
                 createdAt = 1\<rparr>)],
     presentationElements_proto = None,
     responses =
       [(''p1'',
         [\<lparr>user = ''u1'', timestamp = 2, response = None, option = Some 0, optionText = None\<rparr>,
          \<lparr>user = ''u2'', timestamp = 3, response = None, option = Some 1, optionText = None\<rparr>,
          \<lparr>user = ''u3'', timestamp = 4, response = None, option = Some 0, optionText = None\<rparr>])]\<rparr>"
  unfolding poll3_def run_Cons save_p1 run_Nil
  by (simp add: post_api_responses_regular p1_regular recorded_def init_def)

lemma poll80_state:
  "poll80 =
    \<lparr>currentSlide = '''',
     presentationElements =
       [(''p1'', \<lparr>id_e = ''p1'', type_e = ''poll'', title = ''Poll'',
                 options = [''A'', ''B'', ''C''], createdAt = 1\<rparr>)],
     presentationElements_proto = None,
     responses =
       [(''p1'',
         replicate 23 \<lparr>user = ''u'', timestamp = 2, response = None, option = Some 0,
                        optionText = None\<rparr>
         @ replicate 5 \<lparr>user = ''u'', timestamp = 2, response = None, option = Some 1,
                         optionText = None\<rparr>
         @ replicate 52 \<lparr>user = ''u'', timestamp = 2, response = None, option = Some 2,
                          optionText = None\<rparr>)]\<rparr>"
proof -
  let ?s0 = "init\<lparr>presentationElements :=
      [(''p1'', \<lparr>id_e = ''p1'', type_e = ''poll'', title = ''Poll'',
                options = [''A'', ''B'', ''C''], createdAt = 1\<rparr>)]\<rparr>"
  let ?rd = "\<lambda>i. \<lparr>user = ''u'', timestamp = 2, response = None, option = Some i,
                     optionText = None\<rparr>"
  let ?s1 = "?s0\<lparr>responses := [(''p1'', replicate 23 (?rd 0))]\<rparr>"
  let ?s2 = "?s0\<lparr>responses := [(''p1'', replicate 23 (?rd 0) @ replicate 5 (?rd 1))]\<rparr>"
  let ?s3 = "?s0\<lparr>responses :=
      [(''p1'', replicate 23 (?rd 0) @ replicate 5 (?rd 1) @ replicate 52 (?rd 2))]\<rparr>"
  have 1: "run ?s0 (replicate 23 (SubmitResponse (Some ''p1'') (Some ''u'') None (Some 0) None, 2))
      = ?s1"
    using run_submits [where s = ?s0 and eid = "''p1''" and u = "''u''" and n = 22
        and r = None and opt = "Some 0" and ot = None and now = 2] p1_regular
    by (simp add: recorded_def init_def)
  have 2: "run ?s1 (replicate 5 (SubmitResponse (Some ''p1'') (Some ''u'') None (Some 1) None, 2))
      = ?s2"
    using run_submits [where s = ?s1 and eid = "''p1''" and u = "''u''" and n = 4
        and r = None and opt = "Some 1" and ot = None and now = 2]
    by (simp add: recorded_def init_def)
  have 3: "run ?s2 (replicate 52 (SubmitResponse (Some ''p1'') (Some ''u'') None (Some 2) None, 2))
      = ?s3"
    using run_submits [where s = ?s2 and eid = "''p1''" and u = "''u''" and n = 51
        and r = None and opt = "Some 2" and ot = None and now = 2]
    by (simp add: recorded_def init_def)
  have "poll80 = ?s3"
    unfolding poll80_def run_Cons run_append save_p1
    by (simp only: option.case 1 2 3)
  then show ?thesis
    by (simp add: init_def)
qed

subsection \<open>Percentages of the two polls, in binary64\<close>

lemma js_div_2_3: "js_div 2 3 = 6004799503160661 / 9007199254740992"
proof -
  have "fl (of_int 2 / of_int 3) = of_int 6004799503160661 / 2 ^ 53"
    by (rule fl_divide) simp_all
  then show ?thesis
    by (simp add: js_div_def)
qed

lemma js_mul_2_3_100: "js_mul (6004799503160661 / 9007199254740992) 100 = 2345624805922133 / 35184372088832"
proof -
  have "fl (of_int 600479950316066100 / of_int 9007199254740992) = of_int 4691249611844266 / 2 ^ 46"
    by (rule fl_divide) simp_all
  then show ?thesis
    by (simp add: js_mul_def)
qed

lemma js_mul_2_3_10: "js_mul (2345624805922133 / 35184372088832) 10 = 1466015503701333 / 2199023255552"
proof -
  have "fl (of_int 23456248059221330 / of_int 35184372088832) = of_int 5864062014805332 / 2 ^ 43"
    by (rule fl_divide) simp_all
  then show ?thesis
    by (simp add: js_mul_def)
qed

lemma js_percentage_2_3: "js_percentage 2 3 = fl (667 / 10)"
proof -
  have "js_percentage 2 3 = js_div (of_int (Math_round (js_mul (js_mul (js_div 2 3) 100) 10))) 10"
    by (simp add: js_percentage_def)
  also have "\<dots> = js_div (of_int (Math_round (1466015503701333 / 2199023255552))) 10"
    by (simp only: js_div_2_3 js_mul_2_3_100 js_mul_2_3_10)
  also have "\<dots> = fl (667 / 10)"
    by (simp add: Math_round_def js_div_def floor_rat_numeral)
  finally show ?thesis .
qed

lemma js_div_1_3: "js_div 1 3 = 6004799503160661 / 18014398509481984"
proof -
  have "fl (of_int 1 / of_int 3) = of_int 6004799503160661 / 2 ^ 54"
    by (rule fl_divide) simp_all
  then show ?thesis
    by (simp add: js_div_def)
qed

lemma js_mul_1_3_100: "js_mul (6004799503160661 / 18014398509481984) 100 = 2345624805922133 / 70368744177664"
proof -
  have "fl (of_int 600479950316066100 / of_int 18014398509481984) = of_int 4691249611844266 / 2 ^ 47"
    by (rule fl_divide) simp_all
  then show ?thesis
    by (simp add: js_mul_def)
qed

lemma js_mul_1_3_10: "js_mul (2345624805922133 / 70368744177664) 10 = 1466015503701333 / 4398046511104"
proof -
  have "fl (of_int 23456248059221330 / of_int 70368744177664) = of_int 5864062014805332 / 2 ^ 44"
    by (rule fl_divide) simp_all
  then show ?thesis
    by (simp add: js_mul_def)
qed

lemma js_percentage_1_3: "js_percentage 1 3 = fl (333 / 10)"
proof -
  have "js_percentage 1 3 = js_div (of_int (Math_round (js_mul (js_mul (js_div 1 3) 100) 10))) 10"
    by (simp add: js_percentage_def)
  also have "\<dots> = js_div (of_int (Math_round (1466015503701333 / 4398046511104))) 10"
    by (simp only: js_div_1_3 js_mul_1_3_100 js_mul_1_3_10)
  also have "\<dots> = fl (333 / 10)"
    by (simp add: Math_round_def js_div_def floor_rat_numeral)
  finally show ?thesis .
qed

lemma js_div_23_80: "js_div 23 80 = 2589569785738035 / 9007199254740992"
proof -
  have "fl (of_int 23 / of_int 80) = of_int 5179139571476070 / 2 ^ 54"
    by (rule fl_divide) simp_all
  then show ?thesis
    by (simp add: js_div_def)
qed

lemma js_mul_23_80_100: "js_mul (2589569785738035 / 9007199254740992) 100 = 8092405580431359 / 281474976710656"
proof -
  have "fl (of_int 258956978573803500 / of_int 9007199254740992) = of_int 8092405580431359 / 2 ^ 48"
    by (rule fl_divide) simp_all
  then show ?thesis
    by (simp add: js_mul_def)
qed

lemma js_mul_23_80_10: "js_mul (8092405580431359 / 281474976710656) 10 = 5057753487769599 / 17592186044416"
proof -
  have "fl (of_int 80924055804313590 / of_int 281474976710656) = of_int 5057753487769599 / 2 ^ 44"
    by (rule fl_divide) simp_all
  then show ?thesis
    by (simp add: js_mul_def)
qed

lemma js_percentage_23_80: "js_percentage 23 80 = fl (287 / 10)"
proof -
  have "js_percentage 23 80 = js_div (of_int (Math_round (js_mul (js_mul (js_div 23 80) 100) 10))) 10"
    by (simp add: js_percentage_def)
  also have "\<dots> = js_div (of_int (Math_round (5057753487769599 / 17592186044416))) 10"
    by (simp only: js_div_23_80 js_mul_23_80_100 js_mul_23_80_10)
  also have "\<dots> = fl (287 / 10)"
    by (simp add: Math_round_def js_div_def floor_rat_numeral)
  finally show ?thesis .
qed

lemma js_div_5_80: "js_div 5 80 = 1 / 16"
proof -
  have "fl (of_int 5 / of_int 80) = of_int 4503599627370496 / 2 ^ 56"
    by (rule fl_divide) simp_all
  then show ?thesis
    by (simp add: js_div_def)
qed

lemma js_mul_5_80_100: "js_mul (1 / 16) 100 = 25 / 4"
proof -
  have "fl (of_int 100 / of_int 16) = of_int 7036874417766400 / 2 ^ 50"
    by (rule fl_divide) simp_all
  then show ?thesis
    by (simp add: js_mul_def)
qed

lemma js_mul_5_80_10: "js_mul (25 / 4) 10 = 125 / 2"
proof -
  have "fl (of_int 250 / of_int 4) = of_int 8796093022208000 / 2 ^ 47"
    by (rule fl_divide) simp_all
  then show ?thesis
    by (simp add: js_mul_def)
qed

lemma js_percentage_5_80: "js_percentage 5 80 = fl (63 / 10)"
proof -
  have "js_percentage 5 80 = js_div (of_int (Math_round (js_mul (js_mul (js_div 5 80) 100) 10))) 10"
    by (simp add: js_percentage_def)
  also have "\<dots> = js_div (of_int (Math_round (125 / 2))) 10"
    by (simp only: js_div_5_80 js_mul_5_80_100 js_mul_5_80_10)
  also have "\<dots> = fl (63 / 10)"
    by (simp add: Math_round_def js_div_def floor_rat_numeral)
  finally show ?thesis .
qed

lemma js_div_52_80: "js_div 52 80 = 5854679515581645 / 9007199254740992"
proof -
  have "fl (of_int 52 / of_int 80) = of_int 5854679515581645 / 2 ^ 53"
    by (rule fl_divide) simp_all
  then show ?thesis
    by (simp add: js_div_def)
qed

lemma js_mul_52_80_100: "js_mul (5854679515581645 / 9007199254740992) 100 = 65"
proof -
  have "fl (of_int 585467951558164500 / of_int 9007199254740992) = of_int 4573968371548160 / 2 ^ 46"
    by (rule fl_divide) simp_all
  then show ?thesis
    by (simp add: js_mul_def)
qed

lemma js_mul_52_80_10: "js_mul (65) 10 = 650"
proof -
  have "fl (of_int 650 / of_int 1) = of_int 5717460464435200 / 2 ^ 43"
    by (rule fl_divide) simp_all
  then show ?thesis
    by (simp add: js_mul_def)
qed

lemma js_percentage_52_80: "js_percentage 52 80 = fl (65)"
proof -
  have "js_percentage 52 80 = js_div (of_int (Math_round (js_mul (js_mul (js_div 52 80) 100) 10))) 10"
    by (simp add: js_percentage_def)
  also have "\<dots> = js_div (of_int (Math_round (650))) 10"
    by (simp only: js_div_52_80 js_mul_52_80_100 js_mul_52_80_10)
  also have "\<dots> = fl (65)"
    by (simp add: Math_round_def js_div_def floor_rat_numeral)
  finally show ?thesis .
qed

lemma fl_287_10: "fl (287 / 10) = 8078331831595827 / 281474976710656"
proof -
  have "fl (of_int 287 / of_int 10) = of_int 8078331831595827 / 2 ^ 48"
    by (rule fl_divide) simp_all
  then show ?thesis
    by simp
qed

lemma fl_288_10: "fl (144 / 5) = 8106479329266893 / 281474976710656"
proof -
  have "fl (of_int 144 / of_int 5) = of_int 8106479329266893 / 2 ^ 48"
    by (rule fl_divide) simp_all
  then show ?thesis
    by simp
qed

lemma fl_65: "fl (65) = 65"
proof -
  have "fl (of_int 65 / of_int 1) = of_int 4573968371548160 / 2 ^ 46"
    by (rule fl_divide) simp_all
  then show ?thesis
    by simp
qed

subsection \<open>Results\<close>

lemma scenario_poll3:
  "get_api_results_id poll3 ''p1'' now =
    Inr \<lparr>res_elementId = ''p1'',
         res_element = \<lparr>id_e = ''p1'', type_e = ''poll'', title = ''Poll'',
                        options = [''A'', ''B''], createdAt = 1\<rparr>,
         res_results = ChoiceResults
           [\<lparr>text_o = ''A'', count = 2, percentage = fl (667 / 10)\<rparr>,
            \<lparr>text_o = ''B'', count = 1, percentage = fl (333 / 10)\<rparr>]
           (Some 3),
         res_timestamp = now\<rparr>"
proof -
  have "get_api_results_id poll3 ''p1'' now =
    Inr \<lparr>res_elementId = ''p1'',
         res_element = \<lparr>id_e = ''p1'', type_e = ''poll'', title = ''Poll'',
                        options = [''A'', ''B''], createdAt = 1\<rparr>,
         res_results = ChoiceResults
           [\<lparr>text_o = ''A'', count = 2, percentage = js_percentage 2 3\<rparr>,
            \<lparr>text_o = ''B'', count = 1, percentage = js_percentage 1 3\<rparr>]
           (Some 3),
         res_timestamp = now\<rparr>"
    using get_api_results_id_choice
        [where s = poll3 and elementId = "''p1''" and now = now
           and e = "\<lparr>id_e = ''p1'', type_e = ''poll'', title = ''Poll'',
                     options = [''A'', ''B''], createdAt = 1\<rparr>"]
    by (simp add: poll3_state recorded_def option_entry_def Let_def eval_nat_numeral)
  then show ?thesis
    by (simp only: js_percentage_2_3 js_percentage_1_3)
qed

lemma results_poll80:
  "get_api_results_id poll80 ''p1'' now =
    Inr \<lparr>res_elementId = ''p1'',
         res_element = \<lparr>id_e = ''p1'', type_e = ''poll'', title = ''Poll'',
                        options = [''A'', ''B'', ''C''], createdAt = 1\<rparr>,
         res_results = ChoiceResults
           [\<lparr>text_o = ''A'', count = 23, percentage = fl (287 / 10)\<rparr>,
            \<lparr>text_o = ''B'', count = 5, percentage = fl (63 / 10)\<rparr>,
            \<lparr>text_o = ''C'', count = 52, percentage = 65\<rparr>]
           (Some 80),
         res_timestamp = now\<rparr>"
proof -
  have "get_api_results_id poll80 ''p1'' now =
    Inr \<lparr>res_elementId = ''p1'',
         res_element = \<lparr>id_e = ''p1'', type_e = ''poll'', title = ''Poll'',
                        options = [''A'', ''B'', ''C''], createdAt = 1\<rparr>,
         res_results = ChoiceResults
           [\<lparr>text_o = ''A'', count = 23, percentage = js_percentage 23 80\<rparr>,
            \<lparr>text_o = ''B'', count = 5, percentage = js_percentage 5 80\<rparr>,
            \<lparr>text_o = ''C'', count = 52, percentage = js_percentage 52 80\<rparr>]
           (Some 80),
         res_timestamp = now\<rparr>"
    using get_api_results_id_choice
        [where s = poll80 and elementId = "''p1''" and now = now
           and e = "\<lparr>id_e = ''p1'', type_e = ''poll'', title = ''Poll'',
                     options = [''A'', ''B'', ''C''], createdAt = 1\<rparr>"]
    by (simp add: poll80_state recorded_def option_entry_def Let_def)
  then show ?thesis
    by (simp only: js_percentage_23_80 js_percentage_5_80 js_percentage_52_80 fl_65)
qed

text \<open>
  Claim C1, as the code has it. Let an element of a type other than \<open>question\<close> be stored
  under an id that is not a property name of \<^verbatim>\<open>Object.prototype\<close>, and let \<open>rs\<close> be the
  responses recorded for it. \<open>aggregate\<close> succeeds; its total is the length of \<open>rs\<close>; for
  each index \<open>i\<close> of the options, in order, there is the entry with the text of option
  \<open>i\<close>, the number of responses in \<open>rs\<close> whose option is \<open>i\<close>, and the percentage
  \<^verbatim>\<open>Math.round((count / total * 100) * 10) / 10\<close> computed in binary64 arithmetic, or 0
  when the total is 0. With no responses every count and percentage is 0. For the poll of
  the scenario the total is 3 and the entries are 2 with 66.7 and 1 with 33.3 (the
  binary64 numbers that these literals denote).
\<close>

theorem aggregate_choice:
  assumes "map_of (presentationElements s) elementId = Some e"
    and "type_e e \<noteq> ''question''"
    and "elementId \<notin> set Object_prototype_keys"
  shows
    "get_api_results_id s elementId now =
      Inr \<lparr>res_elementId = elementId, res_element = e,
           res_results = ChoiceResults
             (map (\<lambda>i.
                \<lparr>text_o = options e ! i,
                 count = length (filter (\<lambda>r. option r = Some (int i)) (recorded s elementId)),
                 percentage =
                   (if length (recorded s elementId) = 0 then 0
                    else js_div (of_int (Math_round (js_mul (js_mul
                           (js_div
                              (of_nat (length (filter (\<lambda>r. option r = Some (int i))
                                                 (recorded s elementId))))
                              (of_nat (length (recorded s elementId))))
                           100) 10))) 10)\<rparr>)
                [0..<length (options e)])
             (Some (length (recorded s elementId))),
           res_timestamp = now\<rparr> \<and>
     (length (recorded s elementId) = 0 \<longrightarrow>
        get_api_results_id s elementId now =
          Inr \<lparr>res_elementId = elementId, res_element = e,
               res_results = ChoiceResults
                 (map (\<lambda>i. \<lparr>text_o = options e ! i, count = 0, percentage = 0\<rparr>)
                    [0..<length (options e)])
                 (Some 0),
               res_timestamp = now\<rparr>) \<and>
     get_api_results_id poll3 ''p1'' now =
       Inr \<lparr>res_elementId = ''p1'',
            res_element = \<lparr>id_e = ''p1'', type_e = ''poll'', title = ''Poll'',
                           options = [''A'', ''B''], createdAt = 1\<rparr>,
            res_results = ChoiceResults
              [\<lparr>text_o = ''A'', count = 2, percentage = fl (667 / 10)\<rparr>,
               \<lparr>text_o = ''B'', count = 1, percentage = fl (333 / 10)\<rparr>]
              (Some 3),
            res_timestamp = now\<rparr>"
proof -
  have r: "get_api_results_id s elementId now =
      Inr \<lparr>res_elementId = elementId, res_element = e,
           res_results = ChoiceResults
             (map (\<lambda>i. option_entry (recorded s elementId) (options e ! i) i)
                [0..<length (options e)])
             (Some (length (recorded s elementId))),
           res_timestamp = now\<rparr>"
    using assms by (simp add: get_api_results_id_choice entries_upt)
  show ?thesis
    unfolding r scenario_poll3
    by (simp add: option_entry_def Let_def js_percentage_inline)
qed

theorem aggregate_choice_witness:
  "map_of (presentationElements poll80) ''p1'' =
     Some \<lparr>id_e = ''p1'', type_e = ''poll'', title = ''Poll'', options = [''A'', ''B'', ''C''],
           createdAt = 1\<rparr> \<and>
   ''poll'' \<noteq> ''question'' \<and>
   ''p1'' \<notin> set Object_prototype_keys \<and>
   length (recorded poll80 ''p1'') = 80 \<and>
   get_api_results_id poll80 ''p1'' 9 =
     Inr \<lparr>res_elementId = ''p1'',
          res_element = \<lparr>id_e = ''p1'', type_e = ''poll'', title = ''Poll'',
                         options = [''A'', ''B'', ''C''], createdAt = 1\<rparr>,
          res_results = ChoiceResults
            [\<lparr>text_o = ''A'', count = 23,
              percentage = js_div (of_int (Math_round (js_mul (js_mul (js_div 23 80) 100) 10))) 10\<rparr>,
             \<lparr>text_o = ''B'', count = 5,
              percentage = js_div (of_int (Math_round (js_mul (js_mul (js_div 5 80) 100) 10))) 10\<rparr>,
             \<lparr>text_o = ''C'', count = 52,
              percentage = js_div (of_int (Math_round (js_mul (js_mul (js_div 52 80) 100) 10))) 10\<rparr>]
            (Some 80),
          res_timestamp = 9\<rparr>"
proof -
  have own: "map_of (presentationElements poll80) ''p1'' =
     Some \<lparr>id_e = ''p1'', type_e = ''poll'', title = ''Poll'', options = [''A'', ''B'', ''C''],
           createdAt = 1\<rparr>"
    by (simp add: poll80_state)
  have ty: "type_e \<lparr>id_e = ''p1'', type_e = ''poll'', title = ''Poll'',
                    options = [''A'', ''B'', ''C''], createdAt = 1\<rparr> \<noteq> ''question''"
    by simp
  have rec: "recorded poll80 ''p1'' =
      replicate 23 \<lparr>user = ''u'', timestamp = 2, response = None, option = Some 0,
                     optionText = None\<rparr>
      @ replicate 5 \<lparr>user = ''u'', timestamp = 2, response = None, option = Some 1,
                      optionText = None\<rparr>
      @ replicate 52 \<lparr>user = ''u'', timestamp = 2, response = None, option = Some 2,
                       optionText = None\<rparr>"
    by (simp add: poll80_state recorded_def)
  have upt: "[0..<length [''A'', ''B'', ''C'']] = [0, 1, 2]"
    by (simp add: upt_rec)
  from aggregate_choice [OF own ty p1_regular, of 9]
  show ?thesis
    using own by (simp add: rec upt p1_regular)
qed

text \<open>
  Claim C1, as stated, fails: with 80 responses, 23 of them for option A, the exact value
  of \<open>count/total*1000\<close> is 287.5 and the formula of the claim gives 28.8, but the
  server computes \<^verbatim>\<open>23 / 80 * 100 * 10\<close> as 287.49999999999994 and answers 28.7. (For
  option B the product is exactly 62.5 and the server answers 6.3: it does not round
  ties down either.)
\<close>

theorem percentage_counterexample:
  "get_api_results_id poll80 ''p1'' 9 =
     Inr \<lparr>res_elementId = ''p1'',
          res_element = \<lparr>id_e = ''p1'', type_e = ''poll'', title = ''Poll'',
                         options = [''A'', ''B'', ''C''], createdAt = 1\<rparr>,
          res_results = ChoiceResults
            [\<lparr>text_o = ''A'', count = 23, percentage = fl (287 / 10)\<rparr>,
             \<lparr>text_o = ''B'', count = 5, percentage = fl (63 / 10)\<rparr>,
             \<lparr>text_o = ''C'', count = 52, percentage = 65\<rparr>]
            (Some 80),
          res_timestamp = 9\<rparr> \<and>
   spec_percentage 23 80 = 288 / 10 \<and>
   fl (287 / 10) \<noteq> spec_percentage 23 80 \<and>
   fl (287 / 10) \<noteq> fl (spec_percentage 23 80)"
proof -
  have s: "spec_percentage 23 80 = 144 / 5"
    by (simp add: spec_percentage_def Math_round_def floor_rat_numeral)
  show ?thesis
    unfolding s by (simp add: results_poll80 fl_287_10 fl_288_10)
qed

section \<open>Ids that are property names of \<^verbatim>\<open>Object.prototype\<close>\<close>

lemma constructor_inherited: "''constructor'' \<in> set Object_prototype_keys"
  by (simp add: Object_prototype_keys_def)

lemma elements_lookup_init: "elements_lookup init ''constructor'' = EInherited ''constructor''"
  by (simp add: elements_lookup_def init_def constructor_inherited)

lemma responses_lookup_constructor:
  "responses s = [] \<Longrightarrow> responses_lookup s ''constructor'' = RInherited ''constructor''"
  by (simp add: responses_lookup_def constructor_inherited)

lemma responses_init: "responses init = []"
  by (simp add: init_def)

text \<open>
  Claim C2 at the id \<open>constructor\<close>, in the state at the start, where no element is
  stored: \<open>deleteElement\<close> answers success, not \<open>NotFoundError\<close>, because line 131 finds the
  function \<^verbatim>\<open>Object\<close> in the prototype. For the same id, with no element and no responses,
  \<open>listResponses\<close> answers with count 1 (the \<^verbatim>\<open>length\<close> of that function) instead of the
  empty sequence with count 0, and \<open>aggregate\<close> throws instead of answering
  \<open>NotFoundError\<close>.
\<close>

theorem deleteElement_inherited_name:
  "map_of (get_api_elements init) ''constructor'' = None \<and>
   delete_api_elements_id init ''constructor'' = (Inr (), init) \<and>
   get_api_responses_id init ''constructor'' =
     \<lparr>rr_elementId = ''constructor'', rr_responses = RInherited ''constructor'',
      rr_count = Some 1\<rparr> \<and>
   get_api_results_id init ''constructor'' 2 = Inl InternalServerError"
proof -
  have "map_of (get_api_elements init) ''constructor'' = None"
    by (simp add: get_api_elements_def init_def)
  moreover have "delete_api_elements_id init ''constructor'' = (Inr (), init)"
    by (simp add: delete_api_elements_id_def elements_lookup_init) (simp add: init_def)
  moreover have "get_api_responses_id init ''constructor'' =
     \<lparr>rr_elementId = ''constructor'', rr_responses = RInherited ''constructor'',
      rr_count = Some 1\<rparr>"
    by (simp add: get_api_responses_id_def responses_or_empty_def Let_def
        responses_lookup_constructor [OF responses_init] Object_prototype_length_def)
  moreover have "get_api_results_id init ''constructor'' 2 = Inl InternalServerError"
    by (simp add: get_api_results_id_def elements_lookup_init Let_def)
  ultimately show ?thesis
    by simp
qed

text \<open>
  Claim C4 at the id \<open>constructor\<close>, in the state at the start, where no element is
  stored: \<open>submitResponse\<close> with an element id and a user does not succeed. Line 157 finds
  the inherited function, so no array is created, and line 169 throws; the state is
  unchanged. \<open>aggregate\<close> of the same id throws as well, instead of answering
  \<open>NotFoundError\<close>.
\<close>

theorem submitResponse_inherited_name:
  "map_of (get_api_elements init) ''constructor'' = None \<and>
   post_api_responses init (Some ''constructor'') (Some ''u1'') None (Some 0) None 1 =
     (Inl InternalServerError, init) \<and>
   get_api_results_id init ''constructor'' 2 = Inl InternalServerError"
proof -
  have "map_of (get_api_elements init) ''constructor'' = None"
    by (simp add: get_api_elements_def init_def)
  moreover have "post_api_responses init (Some ''constructor'') (Some ''u1'') None (Some 0) None 1 =
     (Inl InternalServerError, init)"
    by (simp add: post_api_responses_def Let_def responses_lookup_constructor [OF responses_init])
  moreover have "get_api_results_id init ''constructor'' 2 = Inl InternalServerError"
    by (simp add: get_api_results_id_def elements_lookup_init Let_def)
  ultimately show ?thesis
    by simp
qed

text \<open>
  Claim C3 at a poll without options saved under the id \<open>constructor\<close>: no response is
  recorded for it, so every recorded response has a valid option and the sum of the
  counts, 0, should be the total; but the total is 1, the \<^verbatim>\<open>length\<close> of the inherited
  function that line 203 reads.
\<close>

theorem counts_total_inherited_name:
  "get_api_results_id
     (snd (post_api_elements init (Some ''constructor'') (Some ''poll'') (Some ''Poll'') (Some []) 5))
     ''constructor'' 6 =
     Inr \<lparr>res_elementId = ''constructor'',
          res_element = \<lparr>id_e = ''constructor'', type_e = ''poll'', title = ''Poll'',
                         options = [], createdAt = 5\<rparr>,
          res_results = ChoiceResults [] (Some 1), res_timestamp = 6\<rparr> \<and>
   recorded
     (snd (post_api_elements init (Some ''constructor'') (Some ''poll'') (Some ''Poll'') (Some []) 5))
     ''constructor'' = []"
proof -
  let ?e = "\<lparr>id_e = ''constructor'', type_e = ''poll'', title = ''Poll'', options = [],
             createdAt = 5\<rparr>"
  let ?s = "init\<lparr>presentationElements := [(''constructor'', ?e)]\<rparr>"
  have s: "snd (post_api_elements init (Some ''constructor'') (Some ''poll'') (Some ''Poll'')
                  (Some []) 5) = ?s"
    by (simp add: post_api_elements_valid elements_assign_def init_def)
  have r: "responses ?s = []"
    by (simp add: init_def)
  have "elements_lookup ?s ''constructor'' = EElement ?e"
    by (simp add: elements_lookup_def)
  then have "get_api_results_id ?s ''constructor'' 6 =
      Inr \<lparr>res_elementId = ''constructor'', res_element = ?e,
           res_results = ChoiceResults [] (Some 1), res_timestamp = 6\<rparr>"
    by (simp add: get_api_results_id_def responses_or_empty_def Let_def
        responses_lookup_constructor [OF r] Object_prototype_length_def)
  moreover have "recorded ?s ''constructor'' = []"
    by (simp add: recorded_def r)
  ultimately show ?thesis
    unfolding s by simp
qed

section \<open>Deleting, submitting and counting under every other id\<close>

text \<open>
  For an id that the prototype chain of \<^verbatim>\<open>presentationElements\<close> does not know, the three
  operations behave as claims C2, C4 and C3 say.
\<close>

lemma not_inherited_regular: "\<not> inherited s k \<Longrightarrow> k \<notin> set Object_prototype_keys"
  by (simp add: inherited_def)

lemma deleteElement_absent:
  assumes "map_of (presentationElements s) k = None" and "\<not> inherited s k"
  shows "delete_api_elements_id s k = (Inl NotFoundError, s)"
  by (simp add: delete_api_elements_id_def elements_lookup_absent [OF assms])

lemma deleteElement_present:
  assumes "map_of (presentationElements s) k = Some e" and "\<not> inherited s k"
  shows "fst (delete_api_elements_id s k) = Inr ()"
    and "map_of (get_api_elements (snd (delete_api_elements_id s k))) k = None"
    and "get_api_responses_id (snd (delete_api_elements_id s k)) k =
           \<lparr>rr_elementId = k, rr_responses = RArray [], rr_count = Some 0\<rparr>"
    and "get_api_results_id (snd (delete_api_elements_id s k)) k now = Inl NotFoundError"
proof -
  let ?s' = "s\<lparr>presentationElements := AList.delete k (presentationElements s),
               responses := AList.delete k (responses s)\<rparr>"
  have d: "delete_api_elements_id s k = (Inr (), ?s')"
    by (simp add: delete_api_elements_id_def elements_lookup_own [OF assms(1)])
  have e: "map_of (presentationElements ?s') k = None"
    by (simp add: delete_conv')
  have r: "map_of (responses ?s') k = None"
    by (simp add: delete_conv')
  from assms(2) have i: "\<not> inherited ?s' k"
    by (simp add: inherited_def)
  show "fst (delete_api_elements_id s k) = Inr ()"
    by (simp add: d)
  show "map_of (get_api_elements (snd (delete_api_elements_id s k))) k = None"
    unfolding d using e by (simp add: get_api_elements_def)
  have "responses_lookup ?s' k = RUndefined"
    using r not_inherited_regular [OF i] by (rule responses_lookup_absent)
  then show "get_api_responses_id (snd (delete_api_elements_id s k)) k =
           \<lparr>rr_elementId = k, rr_responses = RArray [], rr_count = Some 0\<rparr>"
    unfolding d by (simp add: get_api_responses_id_def responses_or_empty_def)
  have "elements_lookup ?s' k = EUndefined"
    using e i by (rule elements_lookup_absent)
  then show "get_api_results_id (snd (delete_api_elements_id s k)) k now = Inl NotFoundError"
    unfolding d by (simp add: get_api_results_id_def Let_def)
qed

lemma submitResponse_unknown:
  assumes "eid \<noteq> []" and "u \<noteq> []"
    and "map_of (presentationElements s) eid = None" and "\<not> inherited s eid"
  shows "fst (post_api_responses s (Some eid) (Some u) r opt ot now) =
           Inr (Suc (length (recorded s eid)))"
    and "get_api_responses_id (snd (post_api_responses s (Some eid) (Some u) r opt ot now)) eid =
           \<lparr>rr_elementId = eid,
            rr_responses = RArray (recorded s eid @
              [\<lparr>user = u, timestamp = now, response = r, option = opt, optionText = ot\<rparr>]),
            rr_count = Some (Suc (length (recorded s eid)))\<rparr>"
    and "get_api_results_id (snd (post_api_responses s (Some eid) (Some u) r opt ot now)) eid now'
           = Inl NotFoundError"
proof -
  let ?rd = "\<lparr>user = u, timestamp = now, response = r, option = opt, optionText = ot\<rparr>"
  let ?s' = "s\<lparr>responses := AList.update eid (recorded s eid @ [?rd]) (responses s)\<rparr>"
  have reg: "map_of (responses s) eid \<noteq> None \<or> eid \<notin> set Object_prototype_keys"
    using not_inherited_regular [OF assms(4)] by simp
  have p: "post_api_responses s (Some eid) (Some u) r opt ot now =
      (Inr (Suc (length (recorded s eid))), ?s')"
    using assms(1,2) reg by (rule post_api_responses_regular)
  show "fst (post_api_responses s (Some eid) (Some u) r opt ot now) =
           Inr (Suc (length (recorded s eid)))"
    by (simp add: p)
  have "responses_lookup ?s' eid = RArray (recorded s eid @ [?rd])"
    by (simp add: responses_lookup_def update_conv')
  then show "get_api_responses_id (snd (post_api_responses s (Some eid) (Some u) r opt ot now)) eid =
           \<lparr>rr_elementId = eid, rr_responses = RArray (recorded s eid @ [?rd]),
            rr_count = Some (Suc (length (recorded s eid)))\<rparr>"
    unfolding p by (simp add: get_api_responses_id_def responses_or_empty_def)
  from assms(4) have "\<not> inherited ?s' eid"
    by (simp add: inherited_def)
  with assms(3) have "elements_lookup ?s' eid = EUndefined"
    by (intro elements_lookup_absent) simp_all
  then show "get_api_results_id (snd (post_api_responses s (Some eid) (Some u) r opt ot now)) eid now'
           = Inl NotFoundError"
    unfolding p by (simp add: get_api_results_id_def Let_def)
qed

lemma sum_counts_one:
  "(\<Sum>i<n. if opt = Some (int i) then 1 else 0) =
    (if \<exists>i<n. opt = Some (int i) then 1 else (0::nat))"
proof (cases opt)
  case None
  then show ?thesis by simp
next
  case (Some z)
  show ?thesis
  proof (cases "0 \<le> z")
    case True
    then have eq: "(Some z = Some (int i)) = (i = nat z)" for i
      by auto
    have "(\<Sum>i<n. if i = nat z then 1 else 0) = (if nat z \<in> {..<n} then 1 else (0::nat))"
      by simp
    then show ?thesis
      unfolding Some eq by auto
  next
    case False
    then have "Some z \<noteq> Some (int i)" for i
      by auto
    with Some show ?thesis
      by simp
  qed
qed

lemma sum_counts:
  "(\<Sum>i<n. length (filter (\<lambda>r. option r = Some (int i)) rs)) =
    length (filter (\<lambda>r. \<exists>i<n. option r = Some (int i)) rs)"
proof (induction rs)
  case Nil
  show ?case by simp
next
  case (Cons r rs)
  have "(\<Sum>i<n. length (filter (\<lambda>r. option r = Some (int i)) (r # rs))) =
      (\<Sum>i<n. (if option r = Some (int i) then 1 else 0)
              + length (filter (\<lambda>r. option r = Some (int i)) rs))"
    by (intro sum.cong) simp_all
  also have "\<dots> = (\<Sum>i<n. if option r = Some (int i) then 1 else 0)
      + (\<Sum>i<n. length (filter (\<lambda>r. option r = Some (int i)) rs))"
    by (rule sum.distrib)
  also have "\<dots> = (if \<exists>i<n. option r = Some (int i) then 1 else 0)
      + length (filter (\<lambda>r. \<exists>i<n. option r = Some (int i)) rs)"
    by (simp only: sum_counts_one Cons.IH)
  finally show ?case
    by simp
qed

lemma length_filter_all: "(length (filter P xs) = length xs) \<longleftrightarrow> (\<forall>x\<in>set xs. P x)"
proof
  assume "length (filter P xs) = length xs"
  show "\<forall>x\<in>set xs. P x"
  proof (rule ccontr)
    assume "\<not> (\<forall>x\<in>set xs. P x)"
    then obtain x where "x \<in> set xs" and "\<not> P x"
      by blast
    then have "length (filter P xs) < length xs"
      by (rule length_filter_less)
    with \<open>length (filter P xs) = length xs\<close> show False
      by simp
  qed
next
  assume "\<forall>x\<in>set xs. P x"
  then have "filter P xs = xs"
    by (simp add: filter_id_conv)
  then show "length (filter P xs) = length xs"
    by simp
qed

lemma counts_sum_regular:
  assumes "map_of (presentationElements s) elementId = Some e"
    and "type_e e \<noteq> ''question''"
    and "elementId \<notin> set Object_prototype_keys"
  shows "\<exists>entries.
    get_api_results_id s elementId now =
      Inr \<lparr>res_elementId = elementId, res_element = e,
           res_results = ChoiceResults entries (Some (length (recorded s elementId))),
           res_timestamp = now\<rparr> \<and>
    sum_list (map count entries) =
      length (filter (\<lambda>r. \<exists>i<length (options e). option r = Some (int i))
                (recorded s elementId)) \<and>
    sum_list (map count entries) \<le> length (recorded s elementId) \<and>
    (sum_list (map count entries) = length (recorded s elementId) \<longleftrightarrow>
       (\<forall>r\<in>set (recorded s elementId). \<exists>i<length (options e). option r = Some (int i)))"
proof -
  let ?rs = "recorded s elementId"
  let ?entries = "map (\<lambda>i. option_entry ?rs (options e ! i) i) [0..<length (options e)]"
  have r: "get_api_results_id s elementId now =
      Inr \<lparr>res_elementId = elementId, res_element = e,
           res_results = ChoiceResults ?entries (Some (length ?rs)), res_timestamp = now\<rparr>"
    using assms by (simp add: get_api_results_id_choice entries_upt)
  have "sum_list (map count ?entries) =
      sum_list (map (\<lambda>i. length (filter (\<lambda>r. option r = Some (int i)) ?rs))
                  [0..<length (options e)])"
    by (simp add: option_entry_def Let_def comp_def)
  also have "\<dots> = (\<Sum>i<length (options e). length (filter (\<lambda>r. option r = Some (int i)) ?rs))"
    by (simp add: interv_sum_list_conv_sum_set_nat atLeast0LessThan)
  also have "\<dots> = length (filter (\<lambda>r. \<exists>i<length (options e). option r = Some (int i)) ?rs)"
    by (rule sum_counts)
  finally have c: "sum_list (map count ?entries) =
      length (filter (\<lambda>r. \<exists>i<length (options e). option r = Some (int i)) ?rs)" .
  have "(length (filter (\<lambda>r. \<exists>i<length (options e). option r = Some (int i)) ?rs) = length ?rs)
      \<longleftrightarrow> (\<forall>r\<in>set ?rs. \<exists>i<length (options e). option r = Some (int i))"
    by (rule length_filter_all)
  with r c show ?thesis
    by (intro exI [of _ ?entries]) simp
qed

section \<open>Saving an element validates and overwrites\<close>

lemma post_api_elements_overwrite:
  assumes "i \<noteq> []" and "ty \<noteq> []" and "ti \<noteq> []"
    and "map_of (get_api_elements s) i = Some old"
  shows "map fst (get_api_elements
            (snd (post_api_elements s (Some i) (Some ty) (Some ti) options' now))) =
          map fst (get_api_elements s)"
    and "map_of (get_api_elements
            (snd (post_api_elements s (Some i) (Some ty) (Some ti) options' now))) i =
          Some \<lparr>id_e = i, type_e = ty, title = ti,
                options = (case options' of None \<Rightarrow> [] | Some os \<Rightarrow> os), createdAt = now\<rparr>"
proof -
  from assms(4) have own: "map_of (presentationElements s) i = Some old"
    by (simp add: get_api_elements_def)
  then have "(i, old) \<in> set (presentationElements s)"
    by (rule map_of_SomeD)
  then have mem: "i \<in> set (map fst (presentationElements s))"
    by force
  show "map fst (get_api_elements
            (snd (post_api_elements s (Some i) (Some ty) (Some ti) options' now))) =
          map fst (get_api_elements s)"
    using assms(1-3) own mem
    by (simp add: post_api_elements_valid elements_assign_def get_api_elements_def update_keys)
  show "map_of (get_api_elements
            (snd (post_api_elements s (Some i) (Some ty) (Some ti) options' now))) i =
          Some \<lparr>id_e = i, type_e = ty, title = ti,
                options = (case options' of None \<Rightarrow> [] | Some os \<Rightarrow> os), createdAt = now\<rparr>"
    using assms(1-3) own
    by (simp add: post_api_elements_valid elements_assign_def get_api_elements_def update_conv')
qed

text \<open>
  Claim C8. \<open>create\<close> answers \<open>ValidationError\<close>, and changes nothing, when the id, the
  type or the title is missing or empty. When all three are non-empty it succeeds from
  every state, whether or not the id is already in use, and \<open>get\<close> of that id then
  returns the element just supplied. If \<open>listElements\<close> already had the id, the new
  element takes the place of the old one and the list of ids is unchanged.
\<close>

theorem create_validates_and_upserts:
  "(falsy id' \<or> falsy type' \<or> falsy title' \<longrightarrow>
      post_api_elements s id' type' title' options' now = (Inl ValidationError, s)) \<and>
   (i \<noteq> [] \<and> ty \<noteq> [] \<and> ti \<noteq> [] \<longrightarrow>
      fst (post_api_elements s (Some i) (Some ty) (Some ti) options' now) =
        Inr (EElement \<lparr>id_e = i, type_e = ty, title = ti,
                        options = (case options' of None \<Rightarrow> [] | Some os \<Rightarrow> os),
                        createdAt = now\<rparr>) \<and>
      get_api_elements_id (snd (post_api_elements s (Some i) (Some ty) (Some ti) options' now)) i =
        Inr (EElement \<lparr>id_e = i, type_e = ty, title = ti,
                        options = (case options' of None \<Rightarrow> [] | Some os \<Rightarrow> os),
                        createdAt = now\<rparr>)) \<and>
   (i \<noteq> [] \<and> ty \<noteq> [] \<and> ti \<noteq> [] \<and> map_of (get_api_elements s) i = Some old \<longrightarrow>
      map fst (get_api_elements
         (snd (post_api_elements s (Some i) (Some ty) (Some ti) options' now))) =
        map fst (get_api_elements s) \<and>
      map_of (get_api_elements
         (snd (post_api_elements s (Some i) (Some ty) (Some ti) options' now))) i =
        Some \<lparr>id_e = i, type_e = ty, title = ti,
              options = (case options' of None \<Rightarrow> [] | Some os \<Rightarrow> os), createdAt = now\<rparr>)"
proof (intro conjI impI)
  assume "falsy id' \<or> falsy type' \<or> falsy title'"
  then show "post_api_elements s id' type' title' options' now = (Inl ValidationError, s)"
    by (rule post_api_elements_invalid)
next
  assume "i \<noteq> [] \<and> ty \<noteq> [] \<and> ti \<noteq> []"
  then show "fst (post_api_elements s (Some i) (Some ty) (Some ti) options' now) =
        Inr (EElement \<lparr>id_e = i, type_e = ty, title = ti,
                        options = (case options' of None \<Rightarrow> [] | Some os \<Rightarrow> os),
                        createdAt = now\<rparr>)"
    by (simp add: post_api_elements_valid)
next
  assume "i \<noteq> [] \<and> ty \<noteq> [] \<and> ti \<noteq> []"
  then show "get_api_elements_id (snd (post_api_elements s (Some i) (Some ty) (Some ti) options' now)) i =
        Inr (EElement \<lparr>id_e = i, type_e = ty, title = ti,
                        options = (case options' of None \<Rightarrow> [] | Some os \<Rightarrow> os),
                        createdAt = now\<rparr>)"
    by (simp add: post_api_elements_valid get_api_elements_id_def elements_lookup_assign)
next
  assume "i \<noteq> [] \<and> ty \<noteq> [] \<and> ti \<noteq> [] \<and> map_of (get_api_elements s) i = Some old"
  then show "map fst (get_api_elements
         (snd (post_api_elements s (Some i) (Some ty) (Some ti) options' now))) =
        map fst (get_api_elements s)"
    by (simp add: post_api_elements_overwrite(1))
next
  assume "i \<noteq> [] \<and> ty \<noteq> [] \<and> ti \<noteq> [] \<and> map_of (get_api_elements s) i = Some old"
  then show "map_of (get_api_elements
         (snd (post_api_elements s (Some i) (Some ty) (Some ti) options' now))) i =
        Some \<lparr>id_e = i, type_e = ty, title = ti,
              options = (case options' of None \<Rightarrow> [] | Some os \<Rightarrow> os), createdAt = now\<rparr>"
    by (simp add: post_api_elements_overwrite(2))
qed

theorem create_validates_and_upserts_witness:
  "(falsy None \<or> falsy (Some ''poll'') \<or> falsy (Some ''Poll'')) \<and>
   post_api_elements init None (Some ''poll'') (Some ''Poll'') None 0 = (Inl ValidationError, init) \<and>
   (''p1'' \<noteq> [] \<and> ''vote'' \<noteq> [] \<and> ''Second'' \<noteq> []) \<and>
   map_of (get_api_elements poll3) ''p1'' =
     Some \<lparr>id_e = ''p1'', type_e = ''poll'', title = ''Poll'', options = [''A'', ''B''],
           createdAt = 1\<rparr> \<and>
   get_api_elements_id
     (snd (post_api_elements poll3 (Some ''p1'') (Some ''vote'') (Some ''Second'') None 9)) ''p1'' =
     Inr (EElement \<lparr>id_e = ''p1'', type_e = ''vote'', title = ''Second'', options = [],
                     createdAt = 9\<rparr>) \<and>
   map fst (get_api_elements
     (snd (post_api_elements poll3 (Some ''p1'') (Some ''vote'') (Some ''Second'') None 9))) =
     [''p1'']"
proof -
  have own: "map_of (get_api_elements poll3) ''p1'' =
     Some \<lparr>id_e = ''p1'', type_e = ''poll'', title = ''Poll'', options = [''A'', ''B''],
           createdAt = 1\<rparr>"
    by (simp add: poll3_state get_api_elements_def)
  have keys: "map fst (get_api_elements poll3) = [''p1'']"
    by (simp add: poll3_state get_api_elements_def)
  show ?thesis
    using create_validates_and_upserts
      [where id' = None and type' = "Some ''poll''" and title' = "Some ''Poll''" and s = init
         and options' = None and now = 0]
    create_validates_and_upserts
      [where i = "''p1''" and ty = "''vote''" and ti = "''Second''" and s = poll3
         and options' = None and now = 9
         and old = "\<lparr>id_e = ''p1'', type_e = ''poll'', title = ''Poll'', options = [''A'', ''B''],
                     createdAt = 1\<rparr>"]
    own keys
    by simp
qed

section \<open>Saving an element keeps its responses\<close>

lemma get_api_results_id_element:
  assumes "elements_lookup s elementId = EElement e"
    and "map_of (responses s) elementId \<noteq> None \<or> elementId \<notin> set Object_prototype_keys"
  shows "get_api_results_id s elementId now =
    Inr \<lparr>res_elementId = elementId, res_element = e,
         res_results =
           (if type_e e = ''question''
            then TextResults
                   (map (\<lambda>r. \<lparr>text_user = user r, text_response = response r,
                               text_timestamp = timestamp r\<rparr>) (recorded s elementId))
            else ChoiceResults
                   (map (\<lambda>i. option_entry (recorded s elementId) (options e ! i) i)
                      [0..<length (options e)])
                   (Some (length (recorded s elementId)))),
         res_timestamp = now\<rparr>"
  by (simp add: get_api_results_id_def assms(1) responses_or_empty_recorded [OF assms(2)]
      forEach_options_array entries_upt)

text \<open>
  Claim C10. Saving an element, with any fields and in any state, leaves the response
  store and the current slide as they were, so \<open>listResponses\<close> answers for every id as
  before. When the save is valid and responses \<open>rs\<close> were recorded under its id, the
  aggregation that follows is computed from the new definition and the same \<open>rs\<close>: all
  of them are listed for a question, and all of them are counted for a choice.
\<close>

theorem upsert_keeps_responses:
  "responses (snd (post_api_elements s id' type' title' options' now)) = responses s \<and>
   currentSlide (snd (post_api_elements s id' type' title' options' now)) = currentSlide s \<and>
   get_api_responses_id (snd (post_api_elements s id' type' title' options' now)) elementId =
     get_api_responses_id s elementId \<and>
   (i \<noteq> [] \<and> ty \<noteq> [] \<and> ti \<noteq> [] \<and> map_of (responses s) i = Some rs \<longrightarrow>
      get_api_results_id
        (snd (post_api_elements s (Some i) (Some ty) (Some ti) (Some os) now)) i now' =
        Inr \<lparr>res_elementId = i,
             res_element = \<lparr>id_e = i, type_e = ty, title = ti, options = os, createdAt = now\<rparr>,
             res_results =
               (if ty = ''question''
                then TextResults
                       (map (\<lambda>r. \<lparr>text_user = user r, text_response = response r,
                                   text_timestamp = timestamp r\<rparr>) rs)
                else ChoiceResults
                       (map (\<lambda>k. option_entry rs (os ! k) k) [0..<length os])
                       (Some (length rs))),
             res_timestamp = now'\<rparr>)"
proof (intro conjI impI)
  show "responses (snd (post_api_elements s id' type' title' options' now)) = responses s"
    by (rule post_api_elements_responses)
  show "currentSlide (snd (post_api_elements s id' type' title' options' now)) = currentSlide s"
    by (rule post_api_elements_currentSlide)
  show "get_api_responses_id (snd (post_api_elements s id' type' title' options' now)) elementId =
     get_api_responses_id s elementId"
    by (simp add: post_api_elements_responses get_api_responses_id_def responses_or_empty_def
        responses_lookup_def)
next
  let ?e = "\<lparr>id_e = i, type_e = ty, title = ti, options = os, createdAt = now\<rparr>"
  let ?s' = "snd (post_api_elements s (Some i) (Some ty) (Some ti) (Some os) now)"
  assume a: "i \<noteq> [] \<and> ty \<noteq> [] \<and> ti \<noteq> [] \<and> map_of (responses s) i = Some rs"
  then have l: "elements_lookup ?s' i = EElement ?e"
    by (simp add: post_api_elements_valid elements_lookup_assign)
  have r: "responses ?s' = responses s"
    by (rule post_api_elements_responses)
  with a have own: "map_of (responses ?s') i \<noteq> None \<or> i \<notin> set Object_prototype_keys"
    by simp
  from a r have rec: "recorded ?s' i = rs"
    by (simp add: recorded_def)
  show "get_api_results_id ?s' i now' =
        Inr \<lparr>res_elementId = i, res_element = ?e,
             res_results =
               (if ty = ''question''
                then TextResults
                       (map (\<lambda>r. \<lparr>text_user = user r, text_response = response r,
                                   text_timestamp = timestamp r\<rparr>) rs)
                else ChoiceResults
                       (map (\<lambda>k. option_entry rs (os ! k) k) [0..<length os])
                       (Some (length rs))),
             res_timestamp = now'\<rparr>"
    using get_api_results_id_element [OF l own, of now'] unfolding rec by simp
qed

theorem upsert_keeps_responses_witness:
  "''p1'' \<noteq> [] \<and> ''question'' \<noteq> [] \<and> ''Again'' \<noteq> [] \<and>
   map_of (responses poll3) ''p1'' =
     Some [\<lparr>user = ''u1'', timestamp = 2, response = None, option = Some 0, optionText = None\<rparr>,
           \<lparr>user = ''u2'', timestamp = 3, response = None, option = Some 1, optionText = None\<rparr>,
           \<lparr>user = ''u3'', timestamp = 4, response = None, option = Some 0, optionText = None\<rparr>] \<and>
   get_api_results_id
     (snd (post_api_elements poll3 (Some ''p1'') (Some ''question'') (Some ''Again'') (Some []) 7))
     ''p1'' 8 =
     Inr \<lparr>res_elementId = ''p1'',
          res_element = \<lparr>id_e = ''p1'', type_e = ''question'', title = ''Again'', options = [],
                         createdAt = 7\<rparr>,
          res_results = TextResults
            [\<lparr>text_user = ''u1'', text_response = None, text_timestamp = 2\<rparr>,
             \<lparr>text_user = ''u2'', text_response = None, text_timestamp = 3\<rparr>,
             \<lparr>text_user = ''u3'', text_response = None, text_timestamp = 4\<rparr>],
          res_timestamp = 8\<rparr>"
proof -
  have r: "map_of (responses poll3) ''p1'' =
     Some [\<lparr>user = ''u1'', timestamp = 2, response = None, option = Some 0, optionText = None\<rparr>,
           \<lparr>user = ''u2'', timestamp = 3, response = None, option = Some 1, optionText = None\<rparr>,
           \<lparr>user = ''u3'', timestamp = 4, response = None, option = Some 0, optionText = None\<rparr>]"
    by (simp add: poll3_state)
  from upsert_keeps_responses
    [where s = poll3 and i = "''p1''" and ty = "''question''" and ti = "''Again''" and os = "[]"
       and now = 7 and now' = 8, THEN conjunct2, THEN conjunct2, THEN conjunct2, rule_format,
     OF conjI [OF _ conjI [OF _ conjI [OF _ r]]]]
  show ?thesis
    using r by simp
qed

end
